theory Spec2Isabelle
  imports Main "HOL-Library.AList"
begin

section \<open>Data model (app/models/disentanglement.py)\<close>

text \<open>
  A \<open>datetime\<close> is kept by the text \<open>str()\<close> prints for it: that is what
  \<open>json.dump(..., default=str)\<close> and \<open>csv.DictWriter\<close> write, and what pydantic
  reads back into the same value. The syntax of that text is not modelled.
\<close>

datatype datetime = Datetime string

fun str_datetime :: "datetime \<Rightarrow> string" where
  "str_datetime (Datetime s) = s"

text \<open>ChatMessage and DisentangledTurn: three required strings, five optional fields.\<close>

record DisentangledTurn =
  user_id :: string
  turn_id :: string
  turn_text :: string
  reply_to_turn :: "string option"
  thread_id :: "string option"
  annotator_id :: "string option"
  annotation_timestamp :: "datetime option"
  annotation_notes :: "string option"

record DisentanglementChatRoom =
  room_id :: string
  turns :: "DisentangledTurn list"

section \<open>Values read from and written to files\<close>

text \<open>
  JSON values as \<open>json.load\<close> returns them, restricted to the shapes the service
  writes: null, strings, arrays and objects (an object is the list of its items).
\<close>

datatype json = JNull | JStr string | JArr "json list" | JObj "(string \<times> json) list"

text \<open>
  A file is a text. The service only looks at a text through \<open>csv.reader\<close> (the
  records it yields, the header first) and through \<open>json.load\<close> (the value it returns,
  \<open>None\<close> when it raises JSONDecodeError), so a file is kept as these two readings.
\<close>

record file_text =
  csv_view :: "string list list"
  json_view :: "json option"

datatype py_error =
    HTTPException nat string
  | KeyError string
  | TypeError
  | ValidationError
  | JSONDecodeError
  | FileNotFoundError

text \<open>The service object: the dict of rooms in insertion order, and the file system.\<close>

record DisentanglementService =
  disentanglement_rooms :: "(string \<times> DisentanglementChatRoom) list"
  files :: "string \<rightharpoonup> file_text"

section \<open>Python and library helpers\<close>

text \<open>Truthiness of an \<open>Optional[str]\<close>: \<open>None\<close> and the empty string are false.\<close>

fun truthy :: "string option \<Rightarrow> bool" where
  "truthy None = False"
| "truthy (Some s) = (s \<noteq> [])"

text \<open>\<open>a or b\<close> on optional strings, and on an optional datetime (always true when set).\<close>

definition or_else :: "string option \<Rightarrow> string \<Rightarrow> string option" where
  "or_else a b = (if truthy a then a else Some b)"

definition or_now :: "datetime option \<Rightarrow> datetime \<Rightarrow> datetime option" where
  "or_now a b = (case a of None \<Rightarrow> Some b | Some t \<Rightarrow> Some t)"

text \<open>
  \<open>str.strip()\<close> and \<open>str.lower()\<close>. A character is a code point below 256. Of these,
  \<open>str.isspace()\<close> holds of 9 to 13, 28 to 32, 133 (U+0085) and 160 (U+00A0), and
  \<open>str.lower()\<close> moves 65 to 90 (A to Z) and 192 to 222 without 215 (the capital letters
  of Latin-1) up by 32.
\<close>

definition is_space :: "char \<Rightarrow> bool" where
  "is_space c =
     (let n = (of_char c :: nat)
      in (9 \<le> n \<and> n \<le> 13) \<or> (28 \<le> n \<and> n \<le> 32) \<or> n = 133 \<or> n = 160)"

definition strip :: "string \<Rightarrow> string" where
  "strip s = rev (dropWhile is_space (rev (dropWhile is_space s)))"

definition lower_char :: "char \<Rightarrow> char" where
  "lower_char c =
     (let n = (of_char c :: nat)
      in if (65 \<le> n \<and> n \<le> 90) \<or> (192 \<le> n \<and> n \<le> 222 \<and> n \<noteq> 215) then char_of (n + 32)
         else c)"

definition lower :: "string \<Rightarrow> string" where
  "lower s = map lower_char s"

text \<open>
  \<open>pathlib\<close>: \<open>data_dir / name\<close> for a name that does not start with a slash (the
  names joined here start with \<open>export_\<close> or are a stem followed by \<open>.json\<close>), and
  \<open>Path(p).stem\<close>: the last component of the path that is neither empty nor \<open>.\<close>,
  cut before its last dot when that dot is neither its first nor its last character.
  Paths are compared as strings: two spellings of one file are two paths.
\<close>

definition data_dir :: string where
  "data_dir = ''data/chatrooms''"

definition path_join :: "string \<Rightarrow> string \<Rightarrow> string" where
  "path_join d n = d @ ''/'' @ n"

fun split_on :: "char \<Rightarrow> string \<Rightarrow> string list" where
  "split_on c [] = [[]]"
| "split_on c (x # xs) =
     (if x = c then [] # split_on c xs
      else (case split_on c xs of [] \<Rightarrow> [[x]] | p # ps \<Rightarrow> (x # p) # ps))"

definition path_name :: "string \<Rightarrow> string" where
  "path_name p =
     (case filter (\<lambda>q. q \<noteq> [] \<and> q \<noteq> ''.'') (split_on CHR ''/'' p) of
        [] \<Rightarrow> []
      | q # qs \<Rightarrow> last (q # qs))"

definition rfind :: "char \<Rightarrow> string \<Rightarrow> nat option" where
  "rfind c s =
     (if c \<in> set s then Some (length s - 1 - length (takeWhile (\<lambda>x. x \<noteq> c) (rev s)))
      else None)"

definition stem :: "string \<Rightarrow> string" where
  "stem p =
     (let name = path_name p in
      case rfind CHR ''.'' name of
        None \<Rightarrow> name
      | Some i \<Rightarrow> if 0 < i \<and> i + 1 < length name then take i name else name)"

text \<open>
  A \<open>for\<close> loop that appends one result per element and stops at the first
  exception. The body reads the clock: \<open>now i\<close> is what \<open>datetime.now()\<close> returns
  while element \<open>i\<close> is processed.
\<close>

fun collect_from :: "nat \<Rightarrow> (nat \<Rightarrow> 'a \<Rightarrow> py_error + 'b) \<Rightarrow> 'a list \<Rightarrow> py_error + 'b list" where
  "collect_from i f [] = Inr []"
| "collect_from i f (x # xs) =
     (case f i x of
        Inl e \<Rightarrow> Inl e
      | Inr y \<Rightarrow> (case collect_from (Suc i) f xs of Inl e \<Rightarrow> Inl e | Inr ys \<Rightarrow> Inr (y # ys)))"

section \<open>Serialisation\<close>

text \<open>
  \<open>turn.dict()\<close> and \<open>room.dict()\<close> as \<open>json.dump(..., default=str)\<close> writes them:
  \<open>None\<close> is null, a datetime is its text.
\<close>

definition opt_str :: "string option \<Rightarrow> json" where
  "opt_str v = (case v of None \<Rightarrow> JNull | Some s \<Rightarrow> JStr s)"

definition turn_dict :: "DisentangledTurn \<Rightarrow> json" where
  "turn_dict t = JObj
     [(''user_id'', JStr (user_id t)),
      (''turn_id'', JStr (turn_id t)),
      (''turn_text'', JStr (turn_text t)),
      (''reply_to_turn'', opt_str (reply_to_turn t)),
      (''thread_id'', opt_str (thread_id t)),
      (''annotator_id'', opt_str (annotator_id t)),
      (''annotation_timestamp'', opt_str (map_option str_datetime (annotation_timestamp t))),
      (''annotation_notes'', opt_str (annotation_notes t))]"

definition room_dict :: "DisentanglementChatRoom \<Rightarrow> json" where
  "room_dict r = JObj [(''room_id'', JStr (room_id r)), (''turns'', JArr (map turn_dict (turns r)))]"

text \<open>
  \<open>DisentangledTurn.parse_obj\<close>: the value must be an object; a required field must be
  a string; an optional field may be missing or null. \<open>None\<close> stands for a field that
  does not validate.
\<close>

definition required_str :: "(string \<times> json) list \<Rightarrow> string \<Rightarrow> string option" where
  "required_str kv k = (case map_of kv k of Some (JStr s) \<Rightarrow> Some s | _ \<Rightarrow> None)"

definition optional_str :: "(string \<times> json) list \<Rightarrow> string \<Rightarrow> string option option" where
  "optional_str kv k =
     (case map_of kv k of
        None \<Rightarrow> Some None
      | Some JNull \<Rightarrow> Some None
      | Some (JStr s) \<Rightarrow> Some (Some s)
      | Some _ \<Rightarrow> None)"

definition parse_fields :: "(string \<times> json) list \<Rightarrow> DisentangledTurn option" where
  "parse_fields kv =
     Option.bind (required_str kv ''user_id'') (\<lambda>u.
     Option.bind (required_str kv ''turn_id'') (\<lambda>t.
     Option.bind (required_str kv ''turn_text'') (\<lambda>x.
     Option.bind (optional_str kv ''reply_to_turn'') (\<lambda>r.
     Option.bind (optional_str kv ''thread_id'') (\<lambda>th.
     Option.bind (optional_str kv ''annotator_id'') (\<lambda>a.
     Option.bind (optional_str kv ''annotation_timestamp'') (\<lambda>ts.
     Option.bind (optional_str kv ''annotation_notes'') (\<lambda>n.
       Some \<lparr>user_id = u, turn_id = t, turn_text = x, reply_to_turn = r, thread_id = th,
             annotator_id = a, annotation_timestamp = map_option Datetime ts,
             annotation_notes = n\<rparr>))))))))"

definition parse_obj :: "json \<Rightarrow> py_error + DisentangledTurn" where
  "parse_obj j =
     (case j of
        JObj kv \<Rightarrow> (case parse_fields kv of None \<Rightarrow> Inl ValidationError | Some t \<Rightarrow> Inr t)
      | _ \<Rightarrow> Inl ValidationError)"

text \<open>
  The file \<open>json.dump\<close> writes. \<open>json.load\<close> returns the dumped value. Of what
  \<open>csv.reader\<close> would yield from that text, only what an import can observe is kept:
  a dump without indentation is one line, that is a header and no row; a dump with
  \<open>indent=2\<close> starts with the line \<open>{\<close>, that is the header \<open>['{']\<close>, and has
  further non-blank lines, kept as one record.
\<close>

definition json_dump :: "bool \<Rightarrow> json \<Rightarrow> file_text" where
  "json_dump indent j =
     \<lparr>csv_view = (if indent then [[''{''], [''}'']] else [[''{'']]), json_view = Some j\<rparr>"

text \<open>
  The file \<open>csv.DictWriter\<close> writes: \<open>csv.reader\<close> yields the records written; the
  text starts with the header's first field name, so \<open>json.load\<close> raises.
\<close>

definition csv_write :: "string list list \<Rightarrow> file_text" where
  "csv_write records = \<lparr>csv_view = records, json_view = None\<rparr>"

section \<open>The service (app/services/disentanglement.py)\<close>

definition room_file :: "string \<Rightarrow> string" where
  "room_file rid = path_join data_dir (rid @ ''.json'')"

definition save_room :: "DisentanglementService \<Rightarrow> DisentanglementChatRoom \<Rightarrow> DisentanglementService" where
  "save_room s room =
     s\<lparr>files := (files s)(room_file (room_id room) \<mapsto> json_dump False (room_dict room))\<rparr>"

subsection \<open>import_chatroom\<close>

text \<open>
  \<open>csv.DictReader\<close>: a row is the dict of the header's names zipped with the record, a
  later duplicate name winning; names beyond a short record map to \<open>None\<close>. Blank
  records are skipped. (The values beyond a long record go under the key \<open>None\<close>,
  which the service never reads.)
\<close>

definition dict_row :: "string list \<Rightarrow> string list \<Rightarrow> (string \<times> string option) list" where
  "dict_row fieldnames record =
     zip fieldnames (map Some record) @ map (\<lambda>k. (k, None)) (drop (length record) fieldnames)"

definition row_get :: "(string \<times> string option) list \<Rightarrow> string \<Rightarrow> string option option" where
  "row_get row k = map_of (rev row) k"

definition thread_column_variants :: "string list" where
  "thread_column_variants = [''thread_id'', ''thread'', ''thread_num'', ''thread_number'']"

text \<open>\<open>thread_column and row.get(thread_column)\<close>, \<open>None\<close> when there is no thread column.\<close>

definition thread_cell :: "string option \<Rightarrow> (string \<times> string option) list \<Rightarrow> string option" where
  "thread_cell thread_column row =
     (case thread_column of
        None \<Rightarrow> None
      | Some c \<Rightarrow> (case row_get row c of None \<Rightarrow> None | Some v \<Rightarrow> v))"

definition existing_thread_of :: "string option \<Rightarrow> (string \<times> string option) list \<Rightarrow> string option" where
  "existing_thread_of thread_column row =
     (case thread_cell thread_column row of
        None \<Rightarrow> None
      | Some v \<Rightarrow>
          (if v \<noteq> [] then
             (let existing_thread = strip v in
              if lower existing_thread \<in> {[], ''none'', ''null''} then None
              else Some existing_thread)
           else None))"

definition csv_turn ::
  "string \<Rightarrow> string option \<Rightarrow> datetime \<Rightarrow> (string \<times> string option) list \<Rightarrow> py_error + DisentangledTurn" where
  "csv_turn file_path thread_column now row =
     (let existing_thread = existing_thread_of thread_column row in
      case row_get row ''user_id'' of
        None \<Rightarrow> Inl (KeyError ''user_id'')
      | Some u \<Rightarrow>
     (case row_get row ''turn_id'' of
        None \<Rightarrow> Inl (KeyError ''turn_id'')
      | Some t \<Rightarrow>
     (case row_get row ''turn_text'' of
        None \<Rightarrow> Inl (KeyError ''turn_text'')
      | Some x \<Rightarrow>
     (case u of None \<Rightarrow> Inl ValidationError | Some u' \<Rightarrow>
     (case t of None \<Rightarrow> Inl ValidationError | Some t' \<Rightarrow>
     (case x of None \<Rightarrow> Inl ValidationError | Some x' \<Rightarrow>
        Inr \<lparr>user_id = u', turn_id = t', turn_text = x',
             reply_to_turn = (case row_get row ''reply_to_turn'' of None \<Rightarrow> None | Some r \<Rightarrow> r),
             thread_id = existing_thread,
             annotator_id = (if truthy existing_thread then Some ''imported'' else None),
             annotation_timestamp = (if truthy existing_thread then Some now else None),
             annotation_notes =
               (if truthy existing_thread then Some (''Imported from '' @ file_path) else None)\<rparr>))))))"

definition csv_turns ::
  "string \<Rightarrow> (nat \<Rightarrow> datetime) \<Rightarrow> string list list \<Rightarrow> py_error + DisentangledTurn list" where
  "csv_turns file_path now records =
     (case records of
        [] \<Rightarrow> Inl TypeError
      | headers # rest \<Rightarrow>
          (let thread_column = List.find (\<lambda>variant. variant \<in> set headers) thread_column_variants in
           collect_from 0 (\<lambda>i row. csv_turn file_path thread_column (now i) row)
             (map (dict_row headers) (filter (\<lambda>r. r \<noteq> []) rest))))"

text \<open>The body of \<open>if turn.thread_id:\<close> in the JSON branch.\<close>

definition set_annotation_metadata :: "string \<Rightarrow> datetime \<Rightarrow> DisentangledTurn \<Rightarrow> DisentangledTurn" where
  "set_annotation_metadata file_path now turn =
     (if truthy (thread_id turn) then
        turn\<lparr>annotator_id := or_else (annotator_id turn) ''imported'',
             annotation_timestamp := or_now (annotation_timestamp turn) now,
             annotation_notes := or_else (annotation_notes turn) (''Imported from '' @ file_path)\<rparr>
      else turn)"

definition json_turn :: "string \<Rightarrow> datetime \<Rightarrow> json \<Rightarrow> py_error + DisentangledTurn" where
  "json_turn file_path now turn_data =
     (case parse_obj turn_data of
        Inl e \<Rightarrow> Inl e
      | Inr turn \<Rightarrow> Inr (set_annotation_metadata file_path now turn))"

definition json_turns ::
  "string \<Rightarrow> (nat \<Rightarrow> datetime) \<Rightarrow> json \<Rightarrow> py_error + DisentangledTurn list" where
  "json_turns file_path now data =
     (case data of
        JObj kv \<Rightarrow>
          (case map_of kv ''turns'' of
             None \<Rightarrow> Inl (KeyError ''turns'')
           | Some (JArr xs) \<Rightarrow> collect_from 0 (\<lambda>i. json_turn file_path (now i)) xs
           | Some JNull \<Rightarrow> Inl TypeError
           | Some (JStr cs) \<Rightarrow> (if cs = [] then Inr [] else Inl ValidationError)
           | Some (JObj items) \<Rightarrow> (if items = [] then Inr [] else Inl ValidationError))
      | _ \<Rightarrow> Inl TypeError)"

record import_result =
  message :: string
  total_turns :: nat
  pre_annotated_turns :: nat

text \<open>The first half of \<open>import_chatroom\<close>: the turns read from the opened file.\<close>

definition read_turns ::
  "file_text \<Rightarrow> string \<Rightarrow> string \<Rightarrow> (nat \<Rightarrow> datetime) \<Rightarrow> py_error + DisentangledTurn list" where
  "read_turns f file_path format now =
     (if format = ''csv'' then csv_turns file_path now (csv_view f)
      else (case json_view f of
              None \<Rightarrow> Inl JSONDecodeError
            | Some data \<Rightarrow> json_turns file_path now data))"

definition import_chatroom ::
  "DisentanglementService \<Rightarrow> string \<Rightarrow> string \<Rightarrow> (nat \<Rightarrow> datetime)
     \<Rightarrow> py_error + DisentanglementService \<times> import_result" where
  "import_chatroom s file_path format now =
     (case files s file_path of
        None \<Rightarrow> Inl FileNotFoundError
      | Some f \<Rightarrow>
          (case read_turns f file_path format now of
             Inl e \<Rightarrow> Inl e
           | Inr ts \<Rightarrow>
               (let rid = stem file_path;
                    chat_room = \<lparr>room_id = rid, turns = ts\<rparr>
                in Inr (save_room
                          (s\<lparr>disentanglement_rooms :=
                               AList.update rid chat_room (disentanglement_rooms s)\<rparr>)
                          chat_room,
                        \<lparr>message = ''Successfully imported chat room '' @ rid,
                         total_turns = length ts,
                         pre_annotated_turns =
                           length (filter (\<lambda>turn. thread_id turn \<noteq> None) ts)\<rparr>))))"

subsection \<open>export_chatroom\<close>

definition csv_fieldnames :: "string list" where
  "csv_fieldnames =
     [''user_id'', ''turn_id'', ''turn_text'', ''reply_to_turn'',
      ''thread_id'', ''annotator_id'', ''annotation_timestamp'', ''annotation_notes'']"

text \<open>\<open>writer.writerow(turn.dict())\<close>: \<open>None\<close> is written as the empty string.\<close>

definition opt_cell :: "string option \<Rightarrow> string" where
  "opt_cell v = (case v of None \<Rightarrow> [] | Some s \<Rightarrow> s)"

definition csv_row :: "DisentangledTurn \<Rightarrow> string list" where
  "csv_row t =
     [user_id t, turn_id t, turn_text t, opt_cell (reply_to_turn t),
      opt_cell (thread_id t), opt_cell (annotator_id t),
      opt_cell (map_option str_datetime (annotation_timestamp t)), opt_cell (annotation_notes t)]"

text \<open>\<open>if output_path is None: output_path = self.data_dir / f"export_{room_id}.{format}"\<close>\<close>

definition export_path :: "string \<Rightarrow> string \<Rightarrow> string option \<Rightarrow> string" where
  "export_path rid format output_path =
     (case output_path of
        None \<Rightarrow> path_join data_dir (''export_'' @ rid @ ''.'' @ format)
      | Some p \<Rightarrow> p)"

definition export_chatroom ::
  "DisentanglementService \<Rightarrow> string \<Rightarrow> string \<Rightarrow> string option
     \<Rightarrow> py_error + DisentanglementService \<times> string" where
  "export_chatroom s rid format output_path =
     (case map_of (disentanglement_rooms s) rid of
        None \<Rightarrow> Inl (HTTPException 404 ''Chat room not found'')
      | Some chat_room \<Rightarrow>
          (let out = export_path rid format output_path
           in Inr (s\<lparr>files := (files s)(out \<mapsto>
                        (if format = ''csv''
                         then csv_write (csv_fieldnames # map csv_row (turns chat_room))
                         else json_dump True (room_dict chat_room)))\<rparr>,
                   out)))"

subsection \<open>get_chatroom\<close>

definition get_chatroom :: "DisentanglementService \<Rightarrow> string \<Rightarrow> py_error + DisentanglementChatRoom" where
  "get_chatroom s rid =
     (case map_of (disentanglement_rooms s) rid of
        None \<Rightarrow> Inl (HTTPException 404 ''Chat room not found'')
      | Some chat_room \<Rightarrow> Inr chat_room)"

subsection \<open>annotate_turn\<close>

text \<open>
  The loop over \<open>chat_room.turns\<close>: the first turn with the given id is updated in
  place and the loop returns; \<open>None\<close> when the loop ends without a match.
\<close>

fun annotate_loop ::
  "string \<Rightarrow> string \<Rightarrow> string option \<Rightarrow> string option \<Rightarrow> datetime
     \<Rightarrow> DisentangledTurn list \<Rightarrow> DisentangledTurn list option" where
  "annotate_loop tid ann thr nts now [] = None"
| "annotate_loop tid ann thr nts now (turn # rest) =
     (if turn_id turn = tid then
        Some (turn\<lparr>thread_id := thr, annotator_id := Some ann,
                   annotation_timestamp := Some now, annotation_notes := nts\<rparr> # rest)
      else map_option ((#) turn) (annotate_loop tid ann thr nts now rest))"

record annotate_result =
  annotate_message :: string
  new_annotation_timestamp :: datetime

definition annotate_turn ::
  "DisentanglementService \<Rightarrow> string \<Rightarrow> string \<Rightarrow> string \<Rightarrow> string option \<Rightarrow> string option
     \<Rightarrow> datetime \<Rightarrow> py_error + DisentanglementService \<times> annotate_result" where
  "annotate_turn s rid tid ann thr nts now =
     (case map_of (disentanglement_rooms s) rid of
        None \<Rightarrow> Inl (HTTPException 404 ''Chat room not found'')
      | Some chat_room \<Rightarrow>
          (case annotate_loop tid ann thr nts now (turns chat_room) of
             None \<Rightarrow> Inl (HTTPException 404 ''Turn not found'')
           | Some ts \<Rightarrow>
               (let chat_room' = chat_room\<lparr>turns := ts\<rparr>
                in Inr (save_room
                          (s\<lparr>disentanglement_rooms :=
                               AList.update rid chat_room' (disentanglement_rooms s)\<rparr>)
                          chat_room',
                        \<lparr>annotate_message = ''Turn '' @ tid @ '' annotated'',
                         new_annotation_timestamp = now\<rparr>))))"

subsection \<open>get_thread_summary\<close>

text \<open>
  One step of the loop over the turns: \<open>threads\<close> is the dict built so far, in
  insertion order.
\<close>

definition add_turn ::
  "(string \<times> string list) list \<Rightarrow> DisentangledTurn \<Rightarrow> (string \<times> string list) list" where
  "add_turn threads turn =
     (if truthy (thread_id turn) then
        (case thread_id turn of
           None \<Rightarrow> threads
         | Some k \<Rightarrow>
             (let threads' = (if map_of threads k = None then AList.update k [] threads
                              else threads)
              in AList.update k
                   ((case map_of threads' k of None \<Rightarrow> [] | Some ids \<Rightarrow> ids) @ [turn_id turn])
                   threads'))
      else threads)"

record thread_summary =
  summary_room_id :: string
  thread_count :: nat
  threads :: "(string \<times> string list) list"

definition get_thread_summary :: "DisentanglementService \<Rightarrow> string \<Rightarrow> py_error + thread_summary" where
  "get_thread_summary s rid =
     (case map_of (disentanglement_rooms s) rid of
        None \<Rightarrow> Inl (HTTPException 404 ''Chat room not found'')
      | Some chat_room \<Rightarrow>
          (let ths = foldl add_turn [] (turns chat_room)
           in Inr \<lparr>summary_room_id = rid, thread_count = length ths, threads = ths\<rparr>))"

subsection \<open>list_chatrooms\<close>

record room_summary =
  listed_room_id :: string
  turn_count :: nat
  annotated_turns :: nat
  listed_thread_count :: nat

definition summarise :: "string \<times> DisentanglementChatRoom \<Rightarrow> room_summary" where
  "summarise item =
     (case item of (rid, room) \<Rightarrow>
        \<lparr>listed_room_id = rid,
         turn_count = length (turns room),
         annotated_turns = length (filter (\<lambda>turn. thread_id turn \<noteq> None) (turns room)),
         listed_thread_count =
           card (set (map thread_id (filter (\<lambda>turn. thread_id turn \<noteq> None) (turns room))))\<rparr>)"

definition list_chatrooms :: "DisentanglementService \<Rightarrow> room_summary list" where
  "list_chatrooms s = map summarise (disentanglement_rooms s)"

subsection \<open>delete_chatroom\<close>

definition delete_chatroom ::
  "DisentanglementService \<Rightarrow> string \<Rightarrow> py_error + DisentanglementService \<times> string" where
  "delete_chatroom s rid =
     (case map_of (disentanglement_rooms s) rid of
        None \<Rightarrow> Inl (HTTPException 404 ''Chat room not found'')
      | Some _ \<Rightarrow>
          Inr (s\<lparr>disentanglement_rooms := AList.delete rid (disentanglement_rooms s),
                 files := (files s)(room_file rid := None)\<rparr>,
               ''Chat room '' @ rid @ '' deleted successfully''))"

section \<open>Export followed by import\<close>

text \<open>
  Export a room as JSON, import the file written with format \<open>json\<close>, and read the
  turns of the room the import stored.
\<close>

definition json_round_trip ::
  "DisentanglementService \<Rightarrow> string \<Rightarrow> string option \<Rightarrow> (nat \<Rightarrow> datetime)
     \<Rightarrow> py_error + DisentangledTurn list" where
  "json_round_trip s rid output_path now =
     (case export_chatroom s rid ''json'' output_path of
        Inl e \<Rightarrow> Inl e
      | Inr (s1, p) \<Rightarrow>
          (case import_chatroom s1 p ''json'' now of
             Inl e \<Rightarrow> Inl e
           | Inr (s2, res) \<Rightarrow>
               (case get_chatroom s2 (stem p) of
                  Inl e \<Rightarrow> Inl e
                | Inr room \<Rightarrow> Inr (turns room))))"

section \<open>The import endpoint (app/api/v1/endpoints/disentanglement.py)\<close>



section \<open>Start-up\<close>

text \<open>
  \<open>DisentanglementChatRoom.parse_obj\<close>: \<open>room_id\<close> must be a string and \<open>turns\<close> a
  list of values that validate as turns. Nothing is filled in.
\<close>

definition parse_room :: "json \<Rightarrow> py_error + DisentanglementChatRoom" where
  "parse_room data =
     (case data of
        JObj kv \<Rightarrow>
          (case required_str kv ''room_id'' of
             None \<Rightarrow> Inl ValidationError
           | Some rid \<Rightarrow>
               (case map_of kv ''turns'' of
                  Some (JArr xs) \<Rightarrow>
                    (case collect_from 0 (\<lambda>i. parse_obj) xs of
                       Inl e \<Rightarrow> Inl e
                     | Inr ts \<Rightarrow> Inr \<lparr>room_id = rid, turns = ts\<rparr>)
                | _ \<Rightarrow> Inl ValidationError))
      | _ \<Rightarrow> Inl ValidationError)"

text \<open>
  \<open>_load_rooms\<close>, over the files that \<open>data_dir.glob("*.json")\<close> yields, in the order
  it yields them, and \<open>__init__\<close>, which keeps the rooms loaded. A file that does not
  load makes the start-up fail.
\<close>

fun load_rooms ::
  "(string \<rightharpoonup> file_text) \<Rightarrow> string list \<Rightarrow> (string \<times> DisentanglementChatRoom) list
     \<Rightarrow> py_error + (string \<times> DisentanglementChatRoom) list" where
  "load_rooms fs [] rooms = Inr rooms"
| "load_rooms fs (file # listing) rooms =
     (case fs file of
        None \<Rightarrow> Inl FileNotFoundError
      | Some f \<Rightarrow>
          (case json_view f of
             None \<Rightarrow> Inl JSONDecodeError
           | Some data \<Rightarrow>
               (case parse_room data of
                  Inl e \<Rightarrow> Inl e
                | Inr room \<Rightarrow> load_rooms fs listing (AList.update (room_id room) room rooms))))"

definition init_service ::
  "(string \<rightharpoonup> file_text) \<Rightarrow> string list \<Rightarrow> py_error + DisentanglementService" where
  "init_service fs listing =
     (case load_rooms fs listing [] of
        Inl e \<Rightarrow> Inl e
      | Inr rooms \<Rightarrow> Inr \<lparr>disentanglement_rooms = rooms, files = fs\<rparr>)"

section \<open>Sequences of requests\<close>

text \<open>
  The requests that change the store, each with the clock readings it sees, and the
  environment putting a file at a path. A request that raises leaves the store as it was:
  \<open>import_chatroom\<close>, \<open>annotate_turn\<close> and \<open>delete_chatroom\<close> raise before they touch it.
\<close>

datatype request =
    Import string string "nat \<Rightarrow> datetime"
  | Annotate string string string "string option" "string option" datetime
  | Delete string
  | Upload string file_text

definition handle :: "request \<Rightarrow> DisentanglementService \<Rightarrow> DisentanglementService" where
  "handle req s =
     (case req of
        Import p fmt now \<Rightarrow>
          (case import_chatroom s p fmt now of Inl e \<Rightarrow> s | Inr (s', res) \<Rightarrow> s')
      | Annotate rid tid ann thr nts now \<Rightarrow>
          (case annotate_turn s rid tid ann thr nts now of Inl e \<Rightarrow> s | Inr (s', res) \<Rightarrow> s')
      | Delete rid \<Rightarrow>
          (case delete_chatroom s rid of Inl e \<Rightarrow> s | Inr (s', msg) \<Rightarrow> s')
      | Upload p f \<Rightarrow> s\<lparr>files := (files s)(p \<mapsto> f)\<rparr>)"

fun run :: "request list \<Rightarrow> DisentanglementService \<Rightarrow> DisentanglementService" where
  "run [] s = s"
| "run (req # reqs) s = run reqs (handle req s)"

text \<open>The service as it starts when the data directory holds no room file.\<close>

definition empty_store :: "(string \<rightharpoonup> file_text) \<Rightarrow> DisentanglementService" where
  "empty_store fs = \<lparr>disentanglement_rooms = [], files = fs\<rparr>"

section \<open>The history of a turn\<close>

text \<open>
  Bookkeeping beside the service, for the data model's invariant. For each turn (room id
  and position) it keeps whether a thread id was ever assigned to it, and what last wrote
  its annotation fields: the start-up (the room file as it was), a CSV import, a JSON
  import, or \<open>annotate_turn\<close>.

  A room loaded at start-up or stored by an import has a thread id assigned on the turns
  whose \<open>thread_id\<close> is not \<open>None\<close>, the turns that \<open>pre_annotated_turns\<close> counts. A
  successful \<open>annotate_turn\<close> assigns one to the turn it updates. A deleted room has no
  turns.
\<close>

datatype origin = Loaded | ImportedCsv | ImportedJson | Annotated

record history =
  assigned :: "string \<Rightarrow> nat \<Rightarrow> bool"
  written_by :: "string \<Rightarrow> nat \<Rightarrow> origin"

definition has_thread_id :: "DisentanglementService \<Rightarrow> string \<Rightarrow> nat \<Rightarrow> bool" where
  "has_thread_id s rid i =
     (case map_of (disentanglement_rooms s) rid of
        None \<Rightarrow> False
      | Some room \<Rightarrow> i < length (turns room) \<and> thread_id (turns room ! i) \<noteq> None)"

definition initial_history :: "DisentanglementService \<Rightarrow> history" where
  "initial_history s = \<lparr>assigned = has_thread_id s, written_by = (\<lambda>rid i. Loaded)\<rparr>"

definition mark :: "request \<Rightarrow> DisentanglementService \<Rightarrow> history \<Rightarrow> history" where
  "mark req s h =
     (case req of
        Import p fmt now \<Rightarrow>
          (case import_chatroom s p fmt now of
             Inl e \<Rightarrow> h
           | Inr (s', res) \<Rightarrow>
               \<lparr>assigned = (assigned h)(stem p := has_thread_id s' (stem p)),
                written_by = (written_by h)
                  (stem p := (\<lambda>i. if fmt = ''csv'' then ImportedCsv else ImportedJson))\<rparr>)
      | Annotate rid tid ann thr nts now \<Rightarrow>
          (case annotate_turn s rid tid ann thr nts now of
             Inl e \<Rightarrow> h
           | Inr (s', res) \<Rightarrow>
               (case map_of (disentanglement_rooms s) rid of
                  None \<Rightarrow> h
                | Some room \<Rightarrow>
                    (let k = length (takeWhile (\<lambda>t. turn_id t \<noteq> tid) (turns room))
                     in \<lparr>assigned = (assigned h)(rid := (assigned h rid)(k := True)),
                         written_by = (written_by h)(rid := (written_by h rid)(k := Annotated))\<rparr>)))
      | Delete rid \<Rightarrow>
          (case delete_chatroom s rid of
             Inl e \<Rightarrow> h
           | Inr (s', msg) \<Rightarrow>
               \<lparr>assigned = (assigned h)(rid := (\<lambda>i. False)),
                written_by = (written_by h)(rid := (\<lambda>i. Loaded))\<rparr>)
      | Upload p f \<Rightarrow> h)"

fun history_after :: "request list \<Rightarrow> DisentanglementService \<Rightarrow> history \<Rightarrow> history" where
  "history_after [] s h = h"
| "history_after (req # reqs) s h = history_after reqs (handle req s) (mark req s h)"

text \<open>
  The turns whose annotator id and timestamp the service itself decided: by
  \<open>annotate_turn\<close>, by the CSV branch of the import, or by the JSON branch's
  \<open>if turn.thread_id:\<close>. The other turns have them as their file gave them.
\<close>

definition set_by_service :: "origin \<Rightarrow> DisentangledTurn \<Rightarrow> bool" where
  "set_by_service w t =
     (case w of
        Annotated \<Rightarrow> True
      | ImportedCsv \<Rightarrow> True
      | ImportedJson \<Rightarrow> truthy (thread_id t)
      | Loaded \<Rightarrow> False)"

definition populated :: "DisentangledTurn \<Rightarrow> bool" where
  "populated t = (annotator_id t \<noteq> None \<and> annotation_timestamp t \<noteq> None)"

definition history_invariant :: "DisentanglementService \<Rightarrow> history \<Rightarrow> bool" where
  "history_invariant s h =
     (\<forall>rid room i. map_of (disentanglement_rooms s) rid = Some room \<and> i < length (turns room) \<and>
        set_by_service (written_by h rid i) (turns room ! i) \<longrightarrow>
        (populated (turns room ! i) \<longleftrightarrow> assigned h rid i))"

section \<open>Example values\<close>

definition turn_a :: DisentangledTurn where
  "turn_a = \<lparr>user_id = ''alice'', turn_id = ''t1'', turn_text = ''hello'',
     reply_to_turn = None, thread_id = None, annotator_id = None,
     annotation_timestamp = None, annotation_notes = None\<rparr>"

definition turn_b :: DisentangledTurn where
  "turn_b = \<lparr>user_id = ''bob'', turn_id = ''t2'', turn_text = ''hi alice'',
     reply_to_turn = Some ''t1'', thread_id = Some ''A'', annotator_id = Some ''carol'',
     annotation_timestamp = Some (Datetime ''2024-05-01 10:00:00''),
     annotation_notes = Some ''greeting''\<rparr>"

definition example_room :: DisentanglementChatRoom where
  "example_room = \<lparr>room_id = ''chat'', turns = [turn_a, turn_b]\<rparr>"

text \<open>A store holding one room whose backing file is missing.\<close>

definition example_service :: DisentanglementService where
  "example_service = \<lparr>disentanglement_rooms = [(''chat'', example_room)], files = Map.empty\<rparr>"

text \<open>A room as \<open>annotate_turn\<close> leaves it when called without notes.\<close>

definition turn_c :: DisentangledTurn where
  "turn_c = \<lparr>user_id = ''bob'', turn_id = ''t2'', turn_text = ''hi alice'',
     reply_to_turn = Some ''t1'', thread_id = Some ''A'', annotator_id = Some ''carol'',
     annotation_timestamp = Some (Datetime ''2024-05-01 10:00:00''),
     annotation_notes = None\<rparr>"

definition annotated_service :: DisentanglementService where
  "annotated_service =
     \<lparr>disentanglement_rooms = [(''chat'', \<lparr>room_id = ''chat'', turns = [turn_a, turn_c]\<rparr>)],
      files = Map.empty\<rparr>"




text \<open>
  An uploaded CSV file: its header, and the records after it, one of them blank and one
  with a no-break space in the thread column.
\<close>

definition csv_example_header :: "string list" where
  "csv_example_header = [''user_id'', ''turn_id'', ''turn_text'', ''reply_to_turn'', ''thread'']"

definition csv_example_rest :: "string list list" where
  "csv_example_rest =
     [[''alice'', ''t1'', ''hello'', [], '' T1 ''],
      [],
      [''bob'', ''t2'', ''hi alice'', ''t1'', ''None''],
      [''carol'', ''t3'', ''bye'', [], [CHR 0xA0]]]"

definition csv_example_turns :: "DisentangledTurn list" where
  "csv_example_turns =
     [\<lparr>user_id = ''alice'', turn_id = ''t1'', turn_text = ''hello'', reply_to_turn = Some [],
       thread_id = Some ''T1'', annotator_id = Some ''imported'',
       annotation_timestamp = Some (Datetime ''2024-06-01 08:00:00''),
       annotation_notes = Some ''Imported from uploads/chat.csv''\<rparr>,
      \<lparr>user_id = ''bob'', turn_id = ''t2'', turn_text = ''hi alice'', reply_to_turn = Some ''t1'',
       thread_id = None, annotator_id = None, annotation_timestamp = None,
       annotation_notes = None\<rparr>,
      \<lparr>user_id = ''carol'', turn_id = ''t3'', turn_text = ''bye'', reply_to_turn = Some [],
       thread_id = None, annotator_id = None, annotation_timestamp = None,
       annotation_notes = None\<rparr>]"

text \<open>A store beside the uploaded CSV file, and the store and summary after its import.\<close>

definition csv_upload_service :: DisentanglementService where
  "csv_upload_service =
     \<lparr>disentanglement_rooms = [],
      files = [''uploads/chat.csv'' \<mapsto> csv_write (csv_example_header # csv_example_rest)]\<rparr>"

definition csv_imported_service :: DisentanglementService where
  "csv_imported_service =
     \<lparr>disentanglement_rooms = [(''chat'', \<lparr>room_id = ''chat'', turns = csv_example_turns\<rparr>)],
      files = [''uploads/chat.csv'' \<mapsto> csv_write (csv_example_header # csv_example_rest),
               ''data/chatrooms/chat.json'' \<mapsto>
                 json_dump False (room_dict \<lparr>room_id = ''chat'', turns = csv_example_turns\<rparr>)]\<rparr>"

definition csv_imported_result :: import_result where
  "csv_imported_result =
     \<lparr>message = ''Successfully imported chat room chat'', total_turns = 3,
      pre_annotated_turns = 1\<rparr>"

text \<open>The rooms of the thread summary examples: a turn with a given id and thread id.\<close>

definition plain_turn :: "string \<Rightarrow> string option \<Rightarrow> DisentangledTurn" where
  "plain_turn tid thr =
     \<lparr>user_id = ''alice'', turn_id = tid, turn_text = ''hello'', reply_to_turn = None,
      thread_id = thr,
      annotator_id = (case thr of None \<Rightarrow> None | Some _ \<Rightarrow> Some ''carol''),
      annotation_timestamp =
        (case thr of None \<Rightarrow> None | Some _ \<Rightarrow> Some (Datetime ''2024-05-01 10:00:00'')),
      annotation_notes = None\<rparr>"

definition threads_room :: DisentanglementChatRoom where
  "threads_room =
     \<lparr>room_id = ''chat'',
      turns = [plain_turn ''t1'' (Some ''A''), plain_turn ''t2'' (Some ''B''),
               plain_turn ''t3'' (Some ''A''), plain_turn ''t4'' None]\<rparr>"

definition threads_service :: DisentanglementService where
  "threads_service = \<lparr>disentanglement_rooms = [(''chat'', threads_room)], files = Map.empty\<rparr>"

definition empty_thread_room :: DisentanglementChatRoom where
  "empty_thread_room =
     \<lparr>room_id = ''chat'',
      turns = [plain_turn ''t1'' (Some ''A''), plain_turn ''t2'' (Some ''B''),
               plain_turn ''t3'' (Some ''A''), plain_turn ''t4'' None,
               plain_turn ''t5'' (Some [])]\<rparr>"

definition empty_thread_service :: DisentanglementService where
  "empty_thread_service =
     \<lparr>disentanglement_rooms = [(''chat'', empty_thread_room)], files = Map.empty\<rparr>"

text \<open>
  An uploaded JSON file with a turn as \<open>annotate_turn\<close> leaves it when called without a
  thread id, and a turn with the empty thread id and no annotator; the room file its
  import writes, met by a later start-up; and a sequence of requests on the CSV file.
\<close>

definition turn_d :: DisentangledTurn where
  "turn_d = \<lparr>user_id = ''bob'', turn_id = ''t2'', turn_text = ''hi alice'',
     reply_to_turn = Some ''t1'', thread_id = None, annotator_id = Some ''carol'',
     annotation_timestamp = Some (Datetime ''2024-05-01 10:00:00''),
     annotation_notes = None\<rparr>"

definition turn_e :: DisentangledTurn where
  "turn_e = \<lparr>user_id = ''alice'', turn_id = ''t3'', turn_text = ''bye'',
     reply_to_turn = None, thread_id = Some [], annotator_id = None,
     annotation_timestamp = None, annotation_notes = None\<rparr>"

definition given_room :: DisentanglementChatRoom where
  "given_room = \<lparr>room_id = ''chat'', turns = [turn_d, turn_e]\<rparr>"

definition given_upload :: "string \<rightharpoonup> file_text" where
  "given_upload = [''uploads/chat.json'' \<mapsto> json_dump True (room_dict given_room)]"

definition given_requests :: "request list" where
  "given_requests =
     [Import ''uploads/chat.json'' ''json'' (\<lambda>i. Datetime ''2024-06-01 08:00:00'')]"

definition given_data_dir :: "string \<rightharpoonup> file_text" where
  "given_data_dir = [''data/chatrooms/chat.json'' \<mapsto> json_dump False (room_dict given_room)]"

definition csv_requests :: "request list" where
  "csv_requests =
     [Import ''uploads/chat.csv'' ''csv'' (\<lambda>i. Datetime ''2024-06-01 08:00:00''),
      Annotate ''chat'' ''t2'' ''dave'' None None (Datetime ''2024-06-02 09:00:00'')]"

definition csv_annotated_turns :: "DisentangledTurn list" where
  "csv_annotated_turns =
     csv_example_turns
       [1 := \<lparr>user_id = ''bob'', turn_id = ''t2'', turn_text = ''hi alice'',
              reply_to_turn = Some ''t1'', thread_id = None, annotator_id = Some ''dave'',
              annotation_timestamp = Some (Datetime ''2024-06-02 09:00:00''),
              annotation_notes = None\<rparr>]"

section \<open>annotate_turn\<close>

lemma annotate_loop_split:
  "\<exists>t \<in> set ts. turn_id t = tid \<Longrightarrow>
   \<exists>pre t post. ts = pre @ t # post \<and> turn_id t = tid \<and> (\<forall>u \<in> set pre. turn_id u \<noteq> tid) \<and>
     annotate_loop tid ann thr nts now ts =
       Some (pre @ t\<lparr>thread_id := thr, annotator_id := Some ann,
                       annotation_timestamp := Some now, annotation_notes := nts\<rparr> # post)"
proof (induction ts)
  case Nil
  then show ?case by simp
next
  case (Cons a ts)
  show ?case
  proof (cases "turn_id a = tid")
    case True
    then have "a # ts = [] @ a # ts \<and> turn_id a = tid \<and> (\<forall>u \<in> set []. turn_id u \<noteq> tid) \<and>
      annotate_loop tid ann thr nts now (a # ts) =
       Some ([] @ a\<lparr>thread_id := thr, annotator_id := Some ann,
                       annotation_timestamp := Some now, annotation_notes := nts\<rparr> # ts)"
      by simp
    then show ?thesis by blast
  next
    case False
    with Cons.prems have "\<exists>t \<in> set ts. turn_id t = tid" by auto
    from Cons.IH[OF this] obtain pre t post where
      h: "ts = pre @ t # post" "turn_id t = tid" "\<forall>u \<in> set pre. turn_id u \<noteq> tid"
       "annotate_loop tid ann thr nts now ts =
       Some (pre @ t\<lparr>thread_id := thr, annotator_id := Some ann,
                       annotation_timestamp := Some now, annotation_notes := nts\<rparr> # post)"
      by blast
    from h False have "a # ts = (a # pre) @ t # post \<and> turn_id t = tid \<and>
      (\<forall>u \<in> set (a # pre). turn_id u \<noteq> tid) \<and>
      annotate_loop tid ann thr nts now (a # ts) =
       Some ((a # pre) @ t\<lparr>thread_id := thr, annotator_id := Some ann,
                       annotation_timestamp := Some now, annotation_notes := nts\<rparr> # post)"
      by simp
    then show ?thesis by blast
  qed
qed

text \<open>
  C1. When the room is stored and has a turn with the given id, \<open>annotate_turn\<close>
  succeeds: the first turn with that id (the turn, when ids are unique) gets the given
  thread id, the given annotator, the current time and the given notes, whatever it held
  before (\<open>None\<close> for an absent thread id or absent notes); every other turn is as it
  was; the room is replaced in the store under its key and written to its backing file;
  the new timestamp is returned.
\<close>

theorem annotate_turn_overwrites:
  assumes "map_of (disentanglement_rooms s) rid = Some room"
      and "\<exists>t \<in> set (turns room). turn_id t = tid"
  shows "\<exists>pre t post room'.
     turns room = pre @ t # post \<and> turn_id t = tid \<and> (\<forall>u \<in> set pre. turn_id u \<noteq> tid) \<and>
     room' = room\<lparr>turns := pre @ t\<lparr>thread_id := thr, annotator_id := Some ann,
                       annotation_timestamp := Some now, annotation_notes := nts\<rparr> # post\<rparr> \<and>
     annotate_turn s rid tid ann thr nts now =
       Inr (s\<lparr>disentanglement_rooms := AList.update rid room' (disentanglement_rooms s),
              files := (files s)(room_file (room_id room) \<mapsto> json_dump False (room_dict room'))\<rparr>,
            \<lparr>annotate_message = ''Turn '' @ tid @ '' annotated'', new_annotation_timestamp = now\<rparr>)"
proof -
  from annotate_loop_split[OF assms(2), of ann thr nts now] obtain pre t post where
      h: "turns room = pre @ t # post" "turn_id t = tid" "\<forall>u \<in> set pre. turn_id u \<noteq> tid"
       "annotate_loop tid ann thr nts now (turns room) =
       Some (pre @ t\<lparr>thread_id := thr, annotator_id := Some ann,
                       annotation_timestamp := Some now, annotation_notes := nts\<rparr> # post)"
    by blast
  have "annotate_turn s rid tid ann thr nts now =
       Inr (s\<lparr>disentanglement_rooms :=
                AList.update rid
                  (room\<lparr>turns := pre @ t\<lparr>thread_id := thr, annotator_id := Some ann,
                       annotation_timestamp := Some now, annotation_notes := nts\<rparr> # post\<rparr>)
                  (disentanglement_rooms s),
              files := (files s)(room_file (room_id room) \<mapsto>
                json_dump False
                  (room_dict (room\<lparr>turns := pre @ t\<lparr>thread_id := thr, annotator_id := Some ann,
                       annotation_timestamp := Some now, annotation_notes := nts\<rparr> # post\<rparr>)))\<rparr>,
            \<lparr>annotate_message = ''Turn '' @ tid @ '' annotated'', new_annotation_timestamp = now\<rparr>)"
    using assms(1) h(4) by (simp add: annotate_turn_def save_room_def Let_def)
  with h(1-3) show ?thesis by blast
qed

text \<open>
  The theorem at the example store: \<open>t2\<close>, annotated before with thread \<open>A\<close> and a
  note, is annotated again with neither thread id nor notes.
\<close>

theorem annotate_turn_overwrites_witness:
  "map_of (disentanglement_rooms example_service) ''chat'' = Some example_room \<and>
   (\<exists>t \<in> set (turns example_room). turn_id t = ''t2'') \<and>
   (\<exists>pre t post room'.
     turns example_room = pre @ t # post \<and> turn_id t = ''t2'' \<and>
     (\<forall>u \<in> set pre. turn_id u \<noteq> ''t2'') \<and>
     room' = example_room\<lparr>turns := pre @ t\<lparr>thread_id := None, annotator_id := Some ''dave'',
                       annotation_timestamp := Some (Datetime ''2024-05-02 09:30:00''),
                       annotation_notes := None\<rparr> # post\<rparr> \<and>
     annotate_turn example_service ''chat'' ''t2'' ''dave'' None None
         (Datetime ''2024-05-02 09:30:00'') =
       Inr (example_service\<lparr>disentanglement_rooms :=
                AList.update ''chat'' room' (disentanglement_rooms example_service),
              files := (files example_service)(room_file (room_id example_room) \<mapsto>
                json_dump False (room_dict room'))\<rparr>,
            \<lparr>annotate_message = ''Turn '' @ ''t2'' @ '' annotated'',
             new_annotation_timestamp = Datetime ''2024-05-02 09:30:00''\<rparr>))"
proof -
  have h1: "map_of (disentanglement_rooms example_service) ''chat'' = Some example_room"
    by (simp add: example_service_def)
  have h2: "\<exists>t \<in> set (turns example_room). turn_id t = ''t2''"
    by (simp add: example_room_def turn_a_def turn_b_def)
  from annotate_turn_overwrites[OF h1 h2, where thr = None and ann = "''dave''"
      and now = "Datetime ''2024-05-02 09:30:00''" and nts = None]
    h1 h2 show ?thesis by blast
qed

section \<open>delete_chatroom\<close>

text \<open>
  C7. \<open>delete_chatroom\<close> raises the 404 "Chat room not found" when the id is not a key
  of the store. Otherwise it succeeds, whether or not the backing file exists: the key is
  gone from the store, the other keys keep their rooms, the backing file is gone, and
  \<open>get_chatroom\<close> on the deleted id raises the 404.
\<close>

theorem delete_chatroom_spec:
  "(map_of (disentanglement_rooms s) rid = None \<longrightarrow>
      delete_chatroom s rid = Inl (HTTPException 404 ''Chat room not found'')) \<and>
   (map_of (disentanglement_rooms s) rid \<noteq> None \<longrightarrow>
      (\<exists>s' msg. delete_chatroom s rid = Inr (s', msg) \<and>
         map_of (disentanglement_rooms s') = (map_of (disentanglement_rooms s))(rid := None) \<and>
         files s' = (files s)(room_file rid := None) \<and>
         get_chatroom s' rid = Inl (HTTPException 404 ''Chat room not found'')))"
  by (auto simp: delete_chatroom_def get_chatroom_def delete_conv' split: option.splits)

text \<open>
  The theorem at the example store: \<open>nope\<close> is not stored; \<open>chat\<close> is stored and has
  no backing file.
\<close>

theorem delete_chatroom_spec_witness:
  "map_of (disentanglement_rooms example_service) ''nope'' = None \<and>
   delete_chatroom example_service ''nope'' = Inl (HTTPException 404 ''Chat room not found'') \<and>
   map_of (disentanglement_rooms example_service) ''chat'' \<noteq> None \<and>
   files example_service (room_file ''chat'') = None \<and>
   (\<exists>s' msg. delete_chatroom example_service ''chat'' = Inr (s', msg) \<and>
      map_of (disentanglement_rooms s') =
        (map_of (disentanglement_rooms example_service))(''chat'' := None) \<and>
      files s' = (files example_service)(room_file ''chat'' := None) \<and>
      get_chatroom s' ''chat'' = Inl (HTTPException 404 ''Chat room not found''))"
proof -
  have h1: "map_of (disentanglement_rooms example_service) ''nope'' = None"
    by (simp add: example_service_def)
  have h2: "map_of (disentanglement_rooms example_service) ''chat'' \<noteq> None"
    by (simp add: example_service_def)
  have h3: "files example_service (room_file ''chat'') = None"
    by (simp add: example_service_def)
  from delete_chatroom_spec[of example_service "''nope''"]
       delete_chatroom_spec[of example_service "''chat''"] h1 h2 h3
  show ?thesis by blast
qed

section \<open>Loops and serialisation\<close>

lemma Datetime_str_datetime: "Datetime (str_datetime a) = a"
  by (cases a) simp

lemma optional_str_opt_str:
  "map_of kv k = Some (opt_str v) \<Longrightarrow> optional_str kv k = Some v"
  by (cases v) (simp_all add: optional_str_def opt_str_def)

lemma parse_obj_turn_dict: "parse_obj (turn_dict t) = Inr t"
proof -
  have ts: "map_option Datetime (map_option str_datetime (annotation_timestamp t)) =
      annotation_timestamp t"
    by (cases "annotation_timestamp t") (simp_all add: Datetime_str_datetime)
  show ?thesis
    by (simp add: parse_obj_def turn_dict_def parse_fields_def required_str_def
        optional_str_opt_str ts)
qed

lemma collect_from_total:
  "(\<And>k x. x \<in> set xs \<Longrightarrow> f k x = Inr (g k x)) \<Longrightarrow>
   collect_from i f xs = Inr (map (\<lambda>(k, x). g k x) (List.enumerate i xs))"
  by (induction xs arbitrary: i) auto

lemma collect_from_map:
  "collect_from i f (map h xs) = collect_from i (\<lambda>k x. f k (h x)) xs"
  by (induction xs arbitrary: i) (auto split: sum.splits)

lemma collect_from_Inr:
  "collect_from i f xs = Inr ys \<Longrightarrow>
   length ys = length xs \<and> (\<forall>k < length xs. f (i + k) (xs ! k) = Inr (ys ! k))"
proof (induction xs arbitrary: i ys)
  case Nil
  then show ?case by simp
next
  case (Cons x xs)
  from Cons.prems obtain y ys' where
    h: "f i x = Inr y" "collect_from (Suc i) f xs = Inr ys'" "ys = y # ys'"
    by (auto split: sum.splits)
  from Cons.IH[OF h(2)] have ih: "length ys' = length xs"
    "\<forall>k < length xs. f (Suc i + k) (xs ! k) = Inr (ys' ! k)" by auto
  show ?case
  proof (intro conjI allI impI)
    show "length ys = length (x # xs)" using ih(1) h(3) by simp
  next
    fix k assume "k < length (x # xs)"
    then show "f (i + k) ((x # xs) ! k) = Inr (ys ! k)"
      using h ih by (cases k) auto
  qed
qed

lemma json_turns_room_dict:
  "json_turns p now (room_dict room) =
     Inr (map (\<lambda>(k, t). set_annotation_metadata p (now k) t) (List.enumerate 0 (turns room)))"
  by (simp add: json_turns_def room_dict_def collect_from_map json_turn_def parse_obj_turn_dict
      collect_from_total[where g = "\<lambda>k t. set_annotation_metadata p (now k) t"])

lemma map_enumerate_id:
  "(\<And>k t. t \<in> set xs \<Longrightarrow> g k t = t) \<Longrightarrow> map (\<lambda>(k, t). g k t) (List.enumerate i xs) = xs"
  by (induction xs arbitrary: i) auto

lemma set_annotation_metadata_complete:
  "truthy (thread_id t) \<longrightarrow>
     truthy (annotator_id t) \<and> annotation_timestamp t \<noteq> None \<and> truthy (annotation_notes t) \<Longrightarrow>
   set_annotation_metadata p n t = t"
  by (auto simp: set_annotation_metadata_def or_else_def or_now_def)

section \<open>JSON export followed by JSON import\<close>

lemma json_round_trip_value:
  assumes "map_of (disentanglement_rooms s) rid = Some room"
  shows "json_round_trip s rid output_path now =
      Inr (map (\<lambda>(k, t). set_annotation_metadata (export_path rid ''json'' output_path) (now k) t)
             (List.enumerate 0 (turns room)))"
  using assms
  by (simp add: json_round_trip_def export_chatroom_def import_chatroom_def read_turns_def
      json_dump_def json_turns_room_dict save_room_def get_chatroom_def update_conv' Let_def)

text \<open>
  C3 (as amended). For every stored room, importing with format \<open>json\<close> the file its
  JSON export wrote succeeds and stores a room with as many turns, in the same order; each
  is the original turn, except that when its thread id is non-empty, an absent or empty
  annotator id has become \<open>imported\<close>, an absent timestamp the current time, and absent
  or empty notes \<open>Imported from <path>\<close>. So the turns are the original ones, field for
  field, when every turn with a non-empty thread id has a non-empty annotator id, a
  timestamp and non-empty notes.
\<close>

theorem json_round_trip_turns:
  assumes "map_of (disentanglement_rooms s) rid = Some room"
  shows "json_round_trip s rid output_path now =
      Inr (map (\<lambda>(k, t). set_annotation_metadata (export_path rid ''json'' output_path) (now k) t)
             (List.enumerate 0 (turns room))) \<and>
    ((\<forall>t \<in> set (turns room). truthy (thread_id t) \<longrightarrow>
        truthy (annotator_id t) \<and> annotation_timestamp t \<noteq> None \<and> truthy (annotation_notes t))
     \<longrightarrow> json_round_trip s rid output_path now = Inr (turns room))"
proof (intro conjI impI)
  show v: "json_round_trip s rid output_path now =
      Inr (map (\<lambda>(k, t). set_annotation_metadata (export_path rid ''json'' output_path) (now k) t)
             (List.enumerate 0 (turns room)))"
    by (rule json_round_trip_value[OF assms])
  assume c: "\<forall>t \<in> set (turns room). truthy (thread_id t) \<longrightarrow>
        truthy (annotator_id t) \<and> annotation_timestamp t \<noteq> None \<and> truthy (annotation_notes t)"
  have "map (\<lambda>(k, t). set_annotation_metadata (export_path rid ''json'' output_path) (now k) t)
             (List.enumerate 0 (turns room)) = turns room"
    by (rule map_enumerate_id) (use c in \<open>simp add: set_annotation_metadata_complete\<close>)
  with v show "json_round_trip s rid output_path now = Inr (turns room)" by simp
qed

text \<open>
  C3 as stated fails: a turn annotated with thread \<open>A\<close> and no notes comes back from
  the round trip with the notes \<open>Imported from data/chatrooms/export_chat.json\<close>.
\<close>

theorem json_round_trip_counterexample:
  "json_round_trip annotated_service ''chat'' None (\<lambda>i. Datetime ''2024-06-01 08:00:00'') =
     Inr [turn_a, turn_c\<lparr>annotation_notes :=
            Some ''Imported from data/chatrooms/export_chat.json''\<rparr>] \<and>
   map_of (disentanglement_rooms annotated_service) ''chat'' =
     Some \<lparr>room_id = ''chat'', turns = [turn_a, turn_c]\<rparr> \<and>
   [turn_a, turn_c\<lparr>annotation_notes := Some ''Imported from data/chatrooms/export_chat.json''\<rparr>]
     \<noteq> [turn_a, turn_c]"
proof -
  have h: "map_of (disentanglement_rooms annotated_service) ''chat'' =
     Some \<lparr>room_id = ''chat'', turns = [turn_a, turn_c]\<rparr>"
    by (simp add: annotated_service_def)
  show ?thesis
    by (simp add: json_round_trip_value[OF h] h enumerate_eq_zip export_path_def path_join_def
        data_dir_def set_annotation_metadata_def turn_a_def turn_c_def or_else_def or_now_def)
qed

text \<open>The theorem at the example store, whose annotated turn has all its fields.\<close>

theorem json_round_trip_turns_witness:
  "map_of (disentanglement_rooms example_service) ''chat'' = Some example_room \<and>
   (\<forall>t \<in> set (turns example_room). truthy (thread_id t) \<longrightarrow>
        truthy (annotator_id t) \<and> annotation_timestamp t \<noteq> None \<and> truthy (annotation_notes t)) = True \<and>
   json_round_trip example_service ''chat'' None (\<lambda>i. Datetime ''2024-06-01 08:00:00'') =
     Inr (turns example_room)"
proof -
  have h: "map_of (disentanglement_rooms example_service) ''chat'' = Some example_room"
    by (simp add: example_service_def)
  have c: "\<forall>t \<in> set (turns example_room). truthy (thread_id t) \<longrightarrow>
        truthy (annotator_id t) \<and> annotation_timestamp t \<noteq> None \<and> truthy (annotation_notes t)"
    by (simp add: example_room_def turn_a_def turn_b_def)
  have c': "(\<forall>t \<in> set (turns example_room). truthy (thread_id t) \<longrightarrow>
        truthy (annotator_id t) \<and> annotation_timestamp t \<noteq> None \<and> truthy (annotation_notes t)) = True"
    using c by simp
  from json_round_trip_turns[OF h, of None "\<lambda>i. Datetime ''2024-06-01 08:00:00''"] c
  have r: "json_round_trip example_service ''chat'' None (\<lambda>i. Datetime ''2024-06-01 08:00:00'') =
     Inr (turns example_room)"
    by blast
  show ?thesis by (rule conjI[OF h conjI[OF c' r]])
qed

section \<open>import_chatroom\<close>

lemma import_chatroom_Inr:
  assumes "import_chatroom s p fmt now = Inr (s', res)"
  shows "\<exists>f ts. files s p = Some f \<and> read_turns f p fmt now = Inr ts \<and>
     s' = s\<lparr>disentanglement_rooms :=
              AList.update (stem p) \<lparr>room_id = stem p, turns = ts\<rparr> (disentanglement_rooms s),
            files := (files s)(room_file (stem p) \<mapsto>
              json_dump False (room_dict \<lparr>room_id = stem p, turns = ts\<rparr>))\<rparr> \<and>
     res = \<lparr>message = ''Successfully imported chat room '' @ stem p,
            total_turns = length ts,
            pre_annotated_turns = length (filter (\<lambda>turn. thread_id turn \<noteq> None) ts)\<rparr>"
  using assms
  by (auto simp: import_chatroom_def save_room_def Let_def split: option.splits sum.splits)




lemma read_turns_json_dump:
  "fmt \<noteq> ''csv'' \<Longrightarrow>
   read_turns (json_dump indent (room_dict room)) p fmt now =
     Inr (map (\<lambda>(k, t). set_annotation_metadata p (now k) t) (List.enumerate 0 (turns room)))"
  by (simp add: read_turns_def json_dump_def json_turns_room_dict)

lemma stem_upload: "stem ''uploads/chat.json'' = ''chat''"
  by (simp add: stem_def path_name_def rfind_def)



section \<open>Formats the import endpoint accepts\<close>



section \<open>export_chatroom\<close>



section \<open>The CSV branch of import_chatroom\<close>

lemma strip_Nil: "strip [] = []"
  by (simp add: strip_def)

lemma lower_eq_Nil: "lower s = [] \<longleftrightarrow> s = []"
  by (simp add: lower_def)

lemma existing_thread_of_eq:
  "existing_thread_of thread_column row =
     (case thread_cell thread_column row of
        None \<Rightarrow> None
      | Some v \<Rightarrow> if strip v \<noteq> [] \<and> lower (strip v) \<noteq> ''none'' \<and> lower (strip v) \<noteq> ''null''
                  then Some (strip v) else None)"
  by (auto simp: existing_thread_of_def Let_def strip_Nil lower_eq_Nil split: option.splits)

lemma csv_turn_fields:
  assumes "csv_turn file_path thread_column now row = Inr t"
  shows "thread_id t = existing_thread_of thread_column row \<and>
     annotator_id t = (if truthy (thread_id t) then Some ''imported'' else None) \<and>
     annotation_timestamp t = (if truthy (thread_id t) then Some now else None) \<and>
     annotation_notes t = (if truthy (thread_id t) then Some (''Imported from '' @ file_path) else None)"
  using assms by (auto simp: csv_turn_def Let_def split: option.splits)

lemma csv_turns_nth:
  assumes "csv_turns file_path now (headers # rest) = Inr ts" and "k < length ts"
  shows "length ts = length (filter (\<lambda>r. r \<noteq> []) rest) \<and>
     csv_turn file_path (List.find (\<lambda>variant. variant \<in> set headers) thread_column_variants) (now k)
       (dict_row headers (filter (\<lambda>r. r \<noteq> []) rest ! k)) = Inr (ts ! k)"
proof -
  let ?rows = "map (dict_row headers) (filter (\<lambda>r. r \<noteq> []) rest)"
  let ?tc = "List.find (\<lambda>variant. variant \<in> set headers) thread_column_variants"
  from assms(1) have c: "collect_from 0 (\<lambda>i row. csv_turn file_path ?tc (now i) row) ?rows = Inr ts"
    by (simp add: csv_turns_def Let_def)
  from collect_from_Inr[OF c] have l: "length ts = length ?rows"
    and n: "\<forall>j < length ?rows. csv_turn file_path ?tc (now (0 + j)) (?rows ! j) = Inr (ts ! j)"
    by blast+
  from l assms(2) have k: "k < length ?rows" by simp
  with n have "csv_turn file_path ?tc (now (0 + k)) (?rows ! k) = Inr (ts ! k)" by blast
  with k l show ?thesis by simp
qed

lemma csv_turns_thread_column:
  assumes "csv_turns file_path now (headers # rest) = Inr ts" and "k < length ts"
  shows "let thread_column = List.find (\<lambda>variant. variant \<in> set headers) thread_column_variants;
             row = dict_row headers (filter (\<lambda>r. r \<noteq> []) rest ! k);
             turn = ts ! k
         in (\<forall>v. thread_cell thread_column row = Some v \<and>
                  strip v \<noteq> [] \<and> lower (strip v) \<noteq> ''none'' \<and> lower (strip v) \<noteq> ''null'' \<longrightarrow>
                thread_id turn = Some (strip v) \<and>
                annotator_id turn = Some ''imported'' \<and>
                annotation_timestamp turn = Some (now k) \<and>
                annotation_notes turn = Some (''Imported from '' @ file_path)) \<and>
            ((\<forall>v. thread_cell thread_column row = Some v \<longrightarrow>
                  strip v = [] \<or> lower (strip v) = ''none'' \<or> lower (strip v) = ''null'') \<longrightarrow>
                thread_id turn = None \<and> annotator_id turn = None \<and>
                annotation_timestamp turn = None \<and> annotation_notes turn = None)"
proof -
  let ?tc = "List.find (\<lambda>variant. variant \<in> set headers) thread_column_variants"
  let ?row = "dict_row headers (filter (\<lambda>r. r \<noteq> []) rest ! k)"
  from csv_turns_nth[OF assms] have t: "csv_turn file_path ?tc (now k) ?row = Inr (ts ! k)"
    by blast
  note f = csv_turn_fields[OF t]
  show ?thesis
    unfolding Let_def
  proof (intro conjI allI impI)
    fix v
    assume a: "thread_cell ?tc ?row = Some v \<and>
        strip v \<noteq> [] \<and> lower (strip v) \<noteq> ''none'' \<and> lower (strip v) \<noteq> ''null''"
    then have e: "thread_id (ts ! k) = Some (strip v)"
      using f by (simp add: existing_thread_of_eq)
    with a f show "thread_id (ts ! k) = Some (strip v)"
      "annotator_id (ts ! k) = Some ''imported''"
      "annotation_timestamp (ts ! k) = Some (now k)"
      "annotation_notes (ts ! k) = Some (''Imported from '' @ file_path)"
      by simp_all
  next
    assume a: "\<forall>v. thread_cell ?tc ?row = Some v \<longrightarrow>
                  strip v = [] \<or> lower (strip v) = ''none'' \<or> lower (strip v) = ''null''"
    then have e: "thread_id (ts ! k) = None"
      using f by (auto simp: existing_thread_of_eq split: option.splits)
    with f show "thread_id (ts ! k) = None" "annotator_id (ts ! k) = None"
      "annotation_timestamp (ts ! k) = None" "annotation_notes (ts ! k) = None"
      by simp_all
  qed
qed

text \<open>
  C4 as stated fails: a thread column holding one blank is non-empty and is neither
  \<open>none\<close> nor \<open>null\<close>, and the turn has no thread id, annotator, timestamp or notes.
\<close>

theorem csv_import_thread_column_counterexample:
  "csv_turns ''uploads/chat.csv'' (\<lambda>i. Datetime ''2024-06-01 08:00:00'')
     [[''user_id'', ''turn_id'', ''turn_text'', ''thread_id''],
      [''alice'', ''t1'', ''hello'', '' '']] =
   Inr [\<lparr>user_id = ''alice'', turn_id = ''t1'', turn_text = ''hello'', reply_to_turn = None,
         thread_id = None, annotator_id = None, annotation_timestamp = None,
         annotation_notes = None\<rparr>] \<and>
   '' '' \<noteq> [] \<and> lower '' '' \<noteq> ''none'' \<and> lower '' '' \<noteq> ''null''"
  by (simp add: csv_turns_def thread_column_variants_def Let_def dict_row_def csv_turn_def
      row_get_def existing_thread_of_def thread_cell_def strip_def is_space_def lower_def
      lower_char_def)

lemma csv_example_import:
  "csv_turns ''uploads/chat.csv'' (\<lambda>i. Datetime ''2024-06-01 08:00:00'')
     (csv_example_header # csv_example_rest) = Inr csv_example_turns"
  unfolding csv_example_turns_def csv_example_header_def csv_example_rest_def by code_simp

text \<open>
  C4 (as amended). A successful import with the format \<open>csv\<close> stores one turn for each
  non-blank record after the header. Take the \<open>k\<close>-th of them, and the value its record
  holds in the detected thread column. When that value, stripped of surrounding white
  space, is non-empty and is not \<open>none\<close> or \<open>null\<close> in any letter case, the turn has
  the stripped value as thread id, the annotator \<open>imported\<close>, the current time as
  timestamp and notes citing the source. When there is no thread column, no value, or the
  stripped value is empty, \<open>none\<close> or \<open>null\<close>, the four annotation fields are null.
\<close>

theorem csv_import_thread_column:
  assumes "import_chatroom s file_path ''csv'' now = Inr (s', res)"
  shows "\<exists>f headers rest ts.
     files s file_path = Some f \<and> csv_view f = headers # rest \<and>
     map_of (disentanglement_rooms s') (stem file_path) =
       Some \<lparr>room_id = stem file_path, turns = ts\<rparr> \<and>
     length ts = length (filter (\<lambda>r. r \<noteq> []) rest) \<and>
     (\<forall>k < length ts.
        let thread_column = List.find (\<lambda>variant. variant \<in> set headers) thread_column_variants;
            row = dict_row headers (filter (\<lambda>r. r \<noteq> []) rest ! k);
            turn = ts ! k
        in (\<forall>v. thread_cell thread_column row = Some v \<and>
                 strip v \<noteq> [] \<and> lower (strip v) \<noteq> ''none'' \<and> lower (strip v) \<noteq> ''null'' \<longrightarrow>
               thread_id turn = Some (strip v) \<and>
               annotator_id turn = Some ''imported'' \<and>
               annotation_timestamp turn = Some (now k) \<and>
               annotation_notes turn = Some (''Imported from '' @ file_path)) \<and>
           ((\<forall>v. thread_cell thread_column row = Some v \<longrightarrow>
                 strip v = [] \<or> lower (strip v) = ''none'' \<or> lower (strip v) = ''null'') \<longrightarrow>
               thread_id turn = None \<and> annotator_id turn = None \<and>
               annotation_timestamp turn = None \<and> annotation_notes turn = None))"
proof -
  from import_chatroom_Inr[OF assms] obtain f ts where
    f: "files s file_path = Some f" and rt: "read_turns f file_path ''csv'' now = Inr ts" and
    s': "s' = s\<lparr>disentanglement_rooms :=
              AList.update (stem file_path) \<lparr>room_id = stem file_path, turns = ts\<rparr>
                (disentanglement_rooms s),
            files := (files s)(room_file (stem file_path) \<mapsto>
              json_dump False (room_dict \<lparr>room_id = stem file_path, turns = ts\<rparr>))\<rparr>"
    by blast
  from rt have ct: "csv_turns file_path now (csv_view f) = Inr ts"
    by (simp add: read_turns_def)
  then obtain headers rest where v: "csv_view f = headers # rest"
    by (cases "csv_view f") (simp_all add: csv_turns_def)
  note ct' = ct[unfolded v]
  have m: "map_of (disentanglement_rooms s') (stem file_path) =
       Some \<lparr>room_id = stem file_path, turns = ts\<rparr>"
    by (simp add: s' update_conv')
  have l: "length ts = length (filter (\<lambda>r. r \<noteq> []) rest)"
  proof (cases ts)
    case Nil
    with ct' show ?thesis
      using collect_from_Inr[of 0 _ _ ts] by (auto simp: csv_turns_def Let_def dest: collect_from_Inr)
  next
    case (Cons t ts')
    then have "0 < length ts" by simp
    from csv_turns_nth[OF ct' this] show ?thesis by blast
  qed
  have "\<forall>k < length ts.
        let thread_column = List.find (\<lambda>variant. variant \<in> set headers) thread_column_variants;
            row = dict_row headers (filter (\<lambda>r. r \<noteq> []) rest ! k);
            turn = ts ! k
        in (\<forall>v. thread_cell thread_column row = Some v \<and>
                 strip v \<noteq> [] \<and> lower (strip v) \<noteq> ''none'' \<and> lower (strip v) \<noteq> ''null'' \<longrightarrow>
               thread_id turn = Some (strip v) \<and>
               annotator_id turn = Some ''imported'' \<and>
               annotation_timestamp turn = Some (now k) \<and>
               annotation_notes turn = Some (''Imported from '' @ file_path)) \<and>
           ((\<forall>v. thread_cell thread_column row = Some v \<longrightarrow>
                 strip v = [] \<or> lower (strip v) = ''none'' \<or> lower (strip v) = ''null'') \<longrightarrow>
               thread_id turn = None \<and> annotator_id turn = None \<and>
               annotation_timestamp turn = None \<and> annotation_notes turn = None)"
    using csv_turns_thread_column[OF ct'] by blast
  with f v m l show ?thesis by blast
qed

lemma stem_csv_upload: "stem ''uploads/chat.csv'' = ''chat''"
  by (simp add: stem_def path_name_def rfind_def)

lemma csv_import_example:
  "import_chatroom csv_upload_service ''uploads/chat.csv'' ''csv''
     (\<lambda>i. Datetime ''2024-06-01 08:00:00'') = Inr (csv_imported_service, csv_imported_result)"
proof -
  have f: "files csv_upload_service ''uploads/chat.csv'' =
      Some (csv_write (csv_example_header # csv_example_rest))"
    by (simp add: csv_upload_service_def)
  have t: "read_turns (csv_write (csv_example_header # csv_example_rest)) ''uploads/chat.csv''
      ''csv'' (\<lambda>i. Datetime ''2024-06-01 08:00:00'') = Inr csv_example_turns"
    by (simp add: read_turns_def csv_write_def csv_example_import)
  have n: "length csv_example_turns = 3"
    "length (filter (\<lambda>turn. thread_id turn \<noteq> None) csv_example_turns) = 1"
    by (simp_all add: csv_example_turns_def)
  show ?thesis
    by (simp add: import_chatroom_def f t n Let_def stem_csv_upload save_room_def
        room_file_def path_join_def data_dir_def csv_imported_service_def
        csv_imported_result_def csv_upload_service_def del: not_None_eq)
qed

text \<open>
  The theorem at the import of the example file: its first record holds \<open>T1\<close> between
  blanks, the second \<open>None\<close>, the third a no-break space.
\<close>

theorem csv_import_thread_column_witness:
  "import_chatroom csv_upload_service ''uploads/chat.csv'' ''csv''
     (\<lambda>i. Datetime ''2024-06-01 08:00:00'') = Inr (csv_imported_service, csv_imported_result) \<and>
   map_of (disentanglement_rooms csv_imported_service) ''chat'' =
     Some \<lparr>room_id = ''chat'', turns = csv_example_turns\<rparr> \<and>
   length csv_example_turns = 3 \<and>
   thread_cell (List.find (\<lambda>variant. variant \<in> set csv_example_header) thread_column_variants)
     (dict_row csv_example_header (filter (\<lambda>r. r \<noteq> []) csv_example_rest ! 0)) = Some '' T1 '' \<and>
   strip '' T1 '' = ''T1'' \<and>
   thread_id (csv_example_turns ! 0) = Some ''T1'' \<and>
   annotator_id (csv_example_turns ! 0) = Some ''imported'' \<and>
   annotation_timestamp (csv_example_turns ! 0) = Some (Datetime ''2024-06-01 08:00:00'') \<and>
   annotation_notes (csv_example_turns ! 0) = Some ''Imported from uploads/chat.csv'' \<and>
   thread_cell (List.find (\<lambda>variant. variant \<in> set csv_example_header) thread_column_variants)
     (dict_row csv_example_header (filter (\<lambda>r. r \<noteq> []) csv_example_rest ! 1)) = Some ''None'' \<and>
   lower (strip ''None'') = ''none'' \<and>
   thread_id (csv_example_turns ! 1) = None \<and>
   annotator_id (csv_example_turns ! 1) = None \<and>
   annotation_timestamp (csv_example_turns ! 1) = None \<and>
   annotation_notes (csv_example_turns ! 1) = None \<and>
   thread_cell (List.find (\<lambda>variant. variant \<in> set csv_example_header) thread_column_variants)
     (dict_row csv_example_header (filter (\<lambda>r. r \<noteq> []) csv_example_rest ! 2)) =
     Some [CHR 0xA0] \<and>
   strip [CHR 0xA0] = [] \<and>
   thread_id (csv_example_turns ! 2) = None \<and>
   annotator_id (csv_example_turns ! 2) = None \<and>
   annotation_timestamp (csv_example_turns ! 2) = None \<and>
   annotation_notes (csv_example_turns ! 2) = None"
proof -
  let ?tc = "List.find (\<lambda>variant. variant \<in> set csv_example_header) thread_column_variants"
  let ?row = "\<lambda>k. dict_row csv_example_header (filter (\<lambda>r. r \<noteq> []) csv_example_rest ! k)"
  let ?now = "\<lambda>i::nat. Datetime ''2024-06-01 08:00:00''"
  note h = csv_import_example
  have len: "length csv_example_turns = 3" by (simp add: csv_example_turns_def)
  have m: "map_of (disentanglement_rooms csv_imported_service) ''chat'' =
     Some \<lparr>room_id = ''chat'', turns = csv_example_turns\<rparr>"
    by (simp add: csv_imported_service_def)
  from csv_import_thread_column[OF h] obtain f headers rest ts where
    f: "files csv_upload_service ''uploads/chat.csv'' = Some f" and
    v: "csv_view f = headers # rest" and
    r: "map_of (disentanglement_rooms csv_imported_service) (stem ''uploads/chat.csv'') =
       Some \<lparr>room_id = stem ''uploads/chat.csv'', turns = ts\<rparr>" and
    a: "\<forall>k < length ts.
        let thread_column = List.find (\<lambda>variant. variant \<in> set headers) thread_column_variants;
            row = dict_row headers (filter (\<lambda>r. r \<noteq> []) rest ! k);
            turn = ts ! k
        in (\<forall>v. thread_cell thread_column row = Some v \<and>
                 strip v \<noteq> [] \<and> lower (strip v) \<noteq> ''none'' \<and> lower (strip v) \<noteq> ''null'' \<longrightarrow>
               thread_id turn = Some (strip v) \<and>
               annotator_id turn = Some ''imported'' \<and>
               annotation_timestamp turn = Some (?now k) \<and>
               annotation_notes turn = Some (''Imported from '' @ ''uploads/chat.csv'')) \<and>
           ((\<forall>v. thread_cell thread_column row = Some v \<longrightarrow>
                 strip v = [] \<or> lower (strip v) = ''none'' \<or> lower (strip v) = ''null'') \<longrightarrow>
               thread_id turn = None \<and> annotator_id turn = None \<and>
               annotation_timestamp turn = None \<and> annotation_notes turn = None)"
    by blast
  from f v have hv: "headers = csv_example_header" "rest = csv_example_rest"
    by (auto simp: csv_upload_service_def csv_write_def)
  from r m have tv: "ts = csv_example_turns"
    by (simp add: stem_csv_upload)
  note a' = a[unfolded hv tv Let_def len]
  have c0: "thread_cell ?tc (?row 0) = Some '' T1 ''"
    unfolding csv_example_header_def csv_example_rest_def by code_simp
  have c1: "thread_cell ?tc (?row 1) = Some ''None''"
    unfolding csv_example_header_def csv_example_rest_def by code_simp
  have c2: "thread_cell ?tc (?row 2) = Some [CHR 0xA0]"
    unfolding csv_example_header_def csv_example_rest_def by code_simp
  have s0: "strip '' T1 '' = ''T1''" by code_simp
  have n0: "strip '' T1 '' \<noteq> []" "lower (strip '' T1 '') \<noteq> ''none''"
    "lower (strip '' T1 '') \<noteq> ''null''"
    by code_simp+
  have l1: "lower (strip ''None'') = ''none''" by code_simp
  have s2: "strip [CHR 0xA0] = []" by code_simp
  have k0: "(0::nat) < 3" by simp
  from a'[rule_format, OF k0] c0 n0
  have r0: "thread_id (csv_example_turns ! 0) = Some (strip '' T1 '') \<and>
     annotator_id (csv_example_turns ! 0) = Some ''imported'' \<and>
     annotation_timestamp (csv_example_turns ! 0) = Some (Datetime ''2024-06-01 08:00:00'') \<and>
     annotation_notes (csv_example_turns ! 0) = Some (''Imported from '' @ ''uploads/chat.csv'')"
    by blast
  have q1: "\<forall>v. thread_cell ?tc (?row 1) = Some v \<longrightarrow>
      strip v = [] \<or> lower (strip v) = ''none'' \<or> lower (strip v) = ''null''"
    using c1 l1 by simp
  have q2: "\<forall>v. thread_cell ?tc (?row 2) = Some v \<longrightarrow>
      strip v = [] \<or> lower (strip v) = ''none'' \<or> lower (strip v) = ''null''"
    using c2 s2 by simp
  have k1: "(1::nat) < 3" and k2: "(2::nat) < 3" by simp_all
  from a'[rule_format, OF k1] q1
  have r1: "thread_id (csv_example_turns ! 1) = None \<and>
     annotator_id (csv_example_turns ! 1) = None \<and>
     annotation_timestamp (csv_example_turns ! 1) = None \<and>
     annotation_notes (csv_example_turns ! 1) = None"
    by blast
  from a'[rule_format, OF k2] q2
  have r2: "thread_id (csv_example_turns ! 2) = None \<and>
     annotator_id (csv_example_turns ! 2) = None \<and>
     annotation_timestamp (csv_example_turns ! 2) = None \<and>
     annotation_notes (csv_example_turns ! 2) = None"
    by blast
  from h m len c0 s0 r0 c1 l1 r1 c2 s2 r2 show ?thesis by simp
qed

section \<open>get_thread_summary\<close>

lemma map_of_add_turn:
  "map_of (add_turn ths t) =
     (case thread_id t of
        None \<Rightarrow> map_of ths
      | Some k \<Rightarrow>
          if k \<noteq> [] then
            (map_of ths)(k \<mapsto> (case map_of ths k of None \<Rightarrow> [] | Some ids \<Rightarrow> ids) @ [turn_id t])
          else map_of ths)"
  by (auto simp: add_turn_def Let_def update_conv' fun_eq_iff split: option.splits)

lemma distinct_add_turn:
  "distinct (map fst ths) \<Longrightarrow> distinct (map fst (add_turn ths t))"
  by (auto simp: add_turn_def Let_def distinct_update split: option.splits)

lemma distinct_foldl_add_turn:
  "distinct (map fst acc) \<Longrightarrow> distinct (map fst (foldl add_turn acc ts))"
  by (induction ts arbitrary: acc) (simp_all add: distinct_add_turn)

lemma map_of_foldl_add_turn:
  "map_of (foldl add_turn acc ts) k =
     (if k \<noteq> [] \<and> (\<exists>t \<in> set ts. thread_id t = Some k) then
        Some ((case map_of acc k of None \<Rightarrow> [] | Some old \<Rightarrow> old) @
              map turn_id (filter (\<lambda>t. thread_id t = Some k) ts))
      else map_of acc k)"
proof (induction ts arbitrary: acc)
  case Nil
  then show ?case by simp
next
  case (Cons t ts)
  show ?case
    by (cases "thread_id t") (auto simp: Cons.IH map_of_add_turn)
qed

lemma threads_of_turns:
  "map_of (foldl add_turn [] ts) k =
     (if k \<noteq> [] \<and> (\<exists>t \<in> set ts. thread_id t = Some k)
      then Some (map turn_id (filter (\<lambda>t. thread_id t = Some k) ts)) else None)"
  by (simp add: map_of_foldl_add_turn)

lemma length_threads_of_turns:
  "length (foldl add_turn [] ts) = card {k. k \<noteq> [] \<and> (\<exists>t \<in> set ts. thread_id t = Some k)}"
proof -
  let ?ths = "foldl add_turn [] ts"
  have d: "distinct (map fst ?ths)" by (rule distinct_foldl_add_turn) simp
  have "dom (map_of ?ths) = {k. k \<noteq> [] \<and> (\<exists>t \<in> set ts. thread_id t = Some k)}"
    by (auto simp: dom_def threads_of_turns)
  moreover have "length ?ths = card (dom (map_of ?ths))"
    using d by (metis distinct_card dom_map_of_conv_image_fst length_map set_map)
  ultimately show ?thesis by simp
qed

text \<open>
  C2 (as amended). \<open>get_thread_summary\<close> raises the 404 for a room that is not
  stored. For a stored room it returns the room id, the dict of threads and its length.
  The dict has one entry for every non-empty thread id that some turn carries: the ids of
  the turns with that thread id, in room order. Turns whose thread id is \<open>None\<close> or the
  empty string are ignored, so the count is the number of distinct non-empty thread ids.
\<close>

theorem get_thread_summary_groups:
  "(map_of (disentanglement_rooms s) rid = None \<longrightarrow>
      get_thread_summary s rid = Inl (HTTPException 404 ''Chat room not found'')) \<and>
   (\<forall>room. map_of (disentanglement_rooms s) rid = Some room \<longrightarrow>
      (\<exists>ths. get_thread_summary s rid =
                Inr \<lparr>summary_room_id = rid, thread_count = length ths, threads = ths\<rparr> \<and>
         distinct (map fst ths) \<and>
         (\<forall>k. map_of ths k =
                (if k \<noteq> [] \<and> (\<exists>t \<in> set (turns room). thread_id t = Some k)
                 then Some (map turn_id (filter (\<lambda>t. thread_id t = Some k) (turns room)))
                 else None)) \<and>
         length ths =
           card {k. k \<noteq> [] \<and> (\<exists>t \<in> set (turns room). thread_id t = Some k)}))"
proof (intro conjI allI impI)
  assume "map_of (disentanglement_rooms s) rid = None"
  then show "get_thread_summary s rid = Inl (HTTPException 404 ''Chat room not found'')"
    by (simp add: get_thread_summary_def)
next
  fix room
  assume r: "map_of (disentanglement_rooms s) rid = Some room"
  let ?ths = "foldl add_turn [] (turns room)"
  have "get_thread_summary s rid =
      Inr \<lparr>summary_room_id = rid, thread_count = length ?ths, threads = ?ths\<rparr>"
    using r by (simp add: get_thread_summary_def Let_def)
  moreover have "distinct (map fst ?ths)" by (rule distinct_foldl_add_turn) simp
  moreover have "\<forall>k. map_of ?ths k =
                (if k \<noteq> [] \<and> (\<exists>t \<in> set (turns room). thread_id t = Some k)
                 then Some (map turn_id (filter (\<lambda>t. thread_id t = Some k) (turns room)))
                 else None)"
    by (simp add: threads_of_turns)
  moreover have "length ?ths =
           card {k. k \<noteq> [] \<and> (\<exists>t \<in> set (turns room). thread_id t = Some k)}"
    by (rule length_threads_of_turns)
  ultimately show "\<exists>ths. get_thread_summary s rid =
                Inr \<lparr>summary_room_id = rid, thread_count = length ths, threads = ths\<rparr> \<and>
         distinct (map fst ths) \<and>
         (\<forall>k. map_of ths k =
                (if k \<noteq> [] \<and> (\<exists>t \<in> set (turns room). thread_id t = Some k)
                 then Some (map turn_id (filter (\<lambda>t. thread_id t = Some k) (turns room)))
                 else None)) \<and>
         length ths =
           card {k. k \<noteq> [] \<and> (\<exists>t \<in> set (turns room). thread_id t = Some k)}"
    by blast
qed

lemma threads_example:
  "get_thread_summary threads_service ''chat'' =
     Inr \<lparr>summary_room_id = ''chat'', thread_count = 2,
          threads = [(''A'', [''t1'', ''t3'']), (''B'', [''t2''])]\<rparr>"
  by (simp add: get_thread_summary_def threads_service_def threads_room_def Let_def
      add_turn_def plain_turn_def)

text \<open>
  C2 as stated fails: \<open>t5\<close> is assigned the thread id \<open>""\<close>, and the summary has
  neither an entry for that thread id nor a count that includes it.
\<close>

theorem get_thread_summary_counterexample:
  "get_thread_summary empty_thread_service ''chat'' =
     Inr \<lparr>summary_room_id = ''chat'', thread_count = 2,
          threads = [(''A'', [''t1'', ''t3'']), (''B'', [''t2''])]\<rparr> \<and>
   map_option (map (\<lambda>t. (turn_id t, thread_id t)) \<circ> turns)
     (map_of (disentanglement_rooms empty_thread_service) ''chat'') =
     Some [(''t1'', Some ''A''), (''t2'', Some ''B''), (''t3'', Some ''A''), (''t4'', None),
           (''t5'', Some [])]"
  by (simp add: get_thread_summary_def empty_thread_service_def empty_thread_room_def Let_def
      add_turn_def plain_turn_def)

text \<open>
  The theorem at the turns \<open>[(t1,A),(t2,B),(t3,A),(t4,None)]\<close>, and at a room that
  is not stored.
\<close>

theorem get_thread_summary_groups_witness:
  "map_of (disentanglement_rooms threads_service) ''nope'' = None \<and>
   get_thread_summary threads_service ''nope'' = Inl (HTTPException 404 ''Chat room not found'') \<and>
   map_of (disentanglement_rooms threads_service) ''chat'' = Some threads_room \<and>
   get_thread_summary threads_service ''chat'' =
     Inr \<lparr>summary_room_id = ''chat'', thread_count = 2,
          threads = [(''A'', [''t1'', ''t3'']), (''B'', [''t2''])]\<rparr> \<and>
   (\<exists>ths. get_thread_summary threads_service ''chat'' =
                Inr \<lparr>summary_room_id = ''chat'', thread_count = length ths, threads = ths\<rparr> \<and>
         distinct (map fst ths) \<and>
         (\<forall>k. map_of ths k =
                (if k \<noteq> [] \<and> (\<exists>t \<in> set (turns threads_room). thread_id t = Some k)
                 then Some (map turn_id (filter (\<lambda>t. thread_id t = Some k) (turns threads_room)))
                 else None)) \<and>
         length ths =
           card {k. k \<noteq> [] \<and> (\<exists>t \<in> set (turns threads_room). thread_id t = Some k)})"
proof -
  have h1: "map_of (disentanglement_rooms threads_service) ''nope'' = None"
    by (simp add: threads_service_def)
  have h2: "map_of (disentanglement_rooms threads_service) ''chat'' = Some threads_room"
    by (simp add: threads_service_def)
  from get_thread_summary_groups[of threads_service "''nope''"]
       get_thread_summary_groups[of threads_service "''chat''"] h1 h2 threads_example
  show ?thesis by blast
qed

section \<open>list_chatrooms against get_thread_summary\<close>

lemma foldl_add_turn_skip:
  "foldl add_turn acc ts = foldl add_turn acc (filter (\<lambda>u. thread_id u \<noteq> Some []) ts)"
  by (induction ts arbitrary: acc) (auto simp: add_turn_def)

lemma annotated_split:
  "length (filter (\<lambda>u. thread_id u \<noteq> None) ts) =
     length (filter (\<lambda>u. truthy (thread_id u)) ts) +
     length (filter (\<lambda>u. thread_id u = Some []) ts)"
proof (induction ts)
  case Nil
  then show ?case by simp
next
  case (Cons t ts)
  then show ?case by (cases "thread_id t") auto
qed

lemma listed_thread_count_eq:
  "card (set (map thread_id (filter (\<lambda>turn. thread_id turn \<noteq> None) ts))) =
     card {k. \<exists>t \<in> set ts. thread_id t = Some k}"
proof -
  let ?K = "{k. \<exists>t \<in> set ts. thread_id t = Some k}"
  have "set (map thread_id (filter (\<lambda>turn. thread_id turn \<noteq> None) ts)) = Some ` ?K"
    by (auto simp: image_iff) force
  then show ?thesis by (simp add: card_image)
qed

lemma finite_thread_ids: "finite {k. \<exists>t \<in> set ts. thread_id t = Some k}"
proof -
  have "{k. \<exists>t \<in> set ts. thread_id t = Some k} \<subseteq> Some -` (thread_id ` set ts)"
    by (auto simp: image_iff) force
  moreover have "finite (Some -` (thread_id ` set ts))"
    by (rule finite_vimageI) simp_all
  ultimately show ?thesis by (rule finite_subset)
qed

text \<open>
  C10. Let a stored room have a turn whose thread id is the empty string. The entry of
  \<open>list_chatrooms\<close> for the room counts as annotated the turns with a non-empty thread
  id and those with the empty one, of which there is at least one; its thread count is the
  number of distinct thread ids, the empty one among them. \<open>get_thread_summary\<close>
  builds its threads from the other turns only and has no entry for the empty thread id;
  its thread count is one less than that of \<open>list_chatrooms\<close>.
\<close>

theorem empty_thread_id_divergence:
  assumes "map_of (disentanglement_rooms s) rid = Some room"
      and "t \<in> set (turns room)" and "thread_id t = Some []"
  shows "summarise (rid, room) \<in> set (list_chatrooms s) \<and>
     annotated_turns (summarise (rid, room)) =
       length (filter (\<lambda>u. truthy (thread_id u)) (turns room)) +
       length (filter (\<lambda>u. thread_id u = Some []) (turns room)) \<and>
     0 < length (filter (\<lambda>u. thread_id u = Some []) (turns room)) \<and>
     listed_thread_count (summarise (rid, room)) =
       card {k. \<exists>u \<in> set (turns room). thread_id u = Some k} \<and>
     [] \<in> {k. \<exists>u \<in> set (turns room). thread_id u = Some k} \<and>
     (\<exists>sm. get_thread_summary s rid = Inr sm \<and>
        threads sm = foldl add_turn [] (filter (\<lambda>u. thread_id u \<noteq> Some []) (turns room)) \<and>
        map_of (threads sm) [] = None \<and>
        thread_count sm < listed_thread_count (summarise (rid, room)) \<and>
        listed_thread_count (summarise (rid, room)) = thread_count sm + 1)"
proof -
  let ?K = "{k. \<exists>u \<in> set (turns room). thread_id u = Some k}"
  let ?ths = "foldl add_turn [] (turns room)"
  have a: "summarise (rid, room) \<in> set (list_chatrooms s)"
    using map_of_SomeD[OF assms(1)] by (auto simp: list_chatrooms_def)
  have b: "annotated_turns (summarise (rid, room)) =
       length (filter (\<lambda>u. truthy (thread_id u)) (turns room)) +
       length (filter (\<lambda>u. thread_id u = Some []) (turns room))"
    by (simp add: summarise_def annotated_split del: not_None_eq)
  have c: "0 < length (filter (\<lambda>u. thread_id u = Some []) (turns room))"
    using assms(2,3) by (simp add: filter_empty_conv) blast
  have "listed_thread_count (summarise (rid, room)) =
      card (set (map thread_id (filter (\<lambda>turn. thread_id turn \<noteq> None) (turns room))))"
    by (simp add: summarise_def)
  also have "\<dots> = card ?K" by (rule listed_thread_count_eq)
  finally have d: "listed_thread_count (summarise (rid, room)) = card ?K" .
  have e: "[] \<in> ?K" using assms(2,3) by blast
  have f: "get_thread_summary s rid =
      Inr \<lparr>summary_room_id = rid, thread_count = length ?ths, threads = ?ths\<rparr>"
    using assms(1) by (simp add: get_thread_summary_def Let_def)
  have g: "length ?ths = card (?K - {[]})"
  proof -
    have "{k. k \<noteq> [] \<and> (\<exists>u \<in> set (turns room). thread_id u = Some k)} = ?K - {[]}" by auto
    then show ?thesis by (simp add: length_threads_of_turns)
  qed
  have h: "card ?K = card (?K - {[]}) + 1"
    using card.remove[OF finite_thread_ids[of "turns room"] e] by (simp only: Suc_eq_plus1)
  have dn: "listed_thread_count (summarise (rid, room)) = length ?ths + 1"
    by (simp only: d h g)
  have i: "map_of ?ths [] = None" by (simp add: threads_of_turns)
  have j: "?ths = foldl add_turn [] (filter (\<lambda>u. thread_id u \<noteq> Some []) (turns room))"
    by (rule foldl_add_turn_skip)
  have "get_thread_summary s rid =
          Inr \<lparr>summary_room_id = rid, thread_count = length ?ths, threads = ?ths\<rparr> \<and>
        threads \<lparr>summary_room_id = rid, thread_count = length ?ths, threads = ?ths\<rparr> =
          foldl add_turn [] (filter (\<lambda>u. thread_id u \<noteq> Some []) (turns room)) \<and>
        map_of (threads \<lparr>summary_room_id = rid, thread_count = length ?ths, threads = ?ths\<rparr>) []
          = None \<and>
        thread_count \<lparr>summary_room_id = rid, thread_count = length ?ths, threads = ?ths\<rparr>
          < listed_thread_count (summarise (rid, room)) \<and>
        listed_thread_count (summarise (rid, room)) =
          thread_count \<lparr>summary_room_id = rid, thread_count = length ?ths, threads = ?ths\<rparr> + 1"
    using f i j[symmetric] dn by simp
  then have k: "\<exists>sm. get_thread_summary s rid = Inr sm \<and>
        threads sm = foldl add_turn [] (filter (\<lambda>u. thread_id u \<noteq> Some []) (turns room)) \<and>
        map_of (threads sm) [] = None \<and>
        thread_count sm < listed_thread_count (summarise (rid, room)) \<and>
        listed_thread_count (summarise (rid, room)) = thread_count sm + 1"
    by blast
  from a b c d e k show ?thesis by blast
qed

text \<open>
  The theorem at the room with \<open>t5\<close>: \<open>list_chatrooms\<close> reports 4 annotated turns
  and 3 threads, \<open>get_thread_summary\<close> 2 threads.
\<close>

theorem empty_thread_id_divergence_witness:
  "map_of (disentanglement_rooms empty_thread_service) ''chat'' = Some empty_thread_room \<and>
   plain_turn ''t5'' (Some []) \<in> set (turns empty_thread_room) \<and>
   thread_id (plain_turn ''t5'' (Some [])) = Some [] \<and>
   list_chatrooms empty_thread_service =
     [\<lparr>listed_room_id = ''chat'', turn_count = 5, annotated_turns = 4,
       listed_thread_count = 3\<rparr>] \<and>
   get_thread_summary empty_thread_service ''chat'' =
     Inr \<lparr>summary_room_id = ''chat'', thread_count = 2,
          threads = [(''A'', [''t1'', ''t3'']), (''B'', [''t2''])]\<rparr> \<and>
   (\<exists>sm. get_thread_summary empty_thread_service ''chat'' = Inr sm \<and>
        map_of (threads sm) [] = None \<and>
        thread_count sm < listed_thread_count (summarise (''chat'', empty_thread_room)) \<and>
        listed_thread_count (summarise (''chat'', empty_thread_room)) = thread_count sm + 1)"
proof -
  have h1: "map_of (disentanglement_rooms empty_thread_service) ''chat'' = Some empty_thread_room"
    by (simp add: empty_thread_service_def)
  have h2: "plain_turn ''t5'' (Some []) \<in> set (turns empty_thread_room)"
    by (simp add: empty_thread_room_def)
  have h3: "thread_id (plain_turn ''t5'' (Some [])) = Some []"
    by (simp add: plain_turn_def)
  have l: "list_chatrooms empty_thread_service =
     [\<lparr>listed_room_id = ''chat'', turn_count = 5, annotated_turns = 4,
       listed_thread_count = 3\<rparr>]"
    unfolding empty_thread_service_def empty_thread_room_def by code_simp
  have g: "get_thread_summary empty_thread_service ''chat'' =
     Inr \<lparr>summary_room_id = ''chat'', thread_count = 2,
          threads = [(''A'', [''t1'', ''t3'']), (''B'', [''t2''])]\<rparr>"
    by (simp add: get_thread_summary_def empty_thread_service_def empty_thread_room_def Let_def
      add_turn_def plain_turn_def)
  from empty_thread_id_divergence[OF h1 h2 h3] h1 h2 h3 l g show ?thesis by blast
qed

section \<open>Annotation fields in the reachable stores\<close>

lemma set_annotation_metadata_populated:
  "truthy (thread_id (set_annotation_metadata p n t)) \<Longrightarrow>
   annotator_id (set_annotation_metadata p n t) \<noteq> None \<and>
   annotation_timestamp (set_annotation_metadata p n t) \<noteq> None"
  by (cases "truthy (thread_id t)"; cases "annotator_id t"; cases "annotation_timestamp t")
     (simp_all add: set_annotation_metadata_def or_else_def or_now_def)

lemma json_turn_populated:
  "json_turn p n j = Inr t \<Longrightarrow> truthy (thread_id t) \<Longrightarrow>
   annotator_id t \<noteq> None \<and> annotation_timestamp t \<noteq> None"
  using set_annotation_metadata_populated
  by (auto simp: json_turn_def split: sum.splits)

lemma json_turns_populated:
  assumes "json_turns p now data = Inr ts" and "i < length ts" and "truthy (thread_id (ts ! i))"
  shows "annotator_id (ts ! i) \<noteq> None \<and> annotation_timestamp (ts ! i) \<noteq> None"
proof -
  from assms(1,2) obtain xs where c: "collect_from 0 (\<lambda>i. json_turn p (now i)) xs = Inr ts"
    by (auto simp: json_turns_def split: json.splits option.splits if_splits)
  from collect_from_Inr[OF c] assms(2) have "json_turn p (now (0 + i)) (xs ! i) = Inr (ts ! i)"
    by simp
  from json_turn_populated[OF this assms(3)] show ?thesis .
qed

lemma csv_turns_populated:
  assumes "csv_turns p now records = Inr ts" and "i < length ts" and "truthy (thread_id (ts ! i))"
  shows "annotator_id (ts ! i) \<noteq> None \<and> annotation_timestamp (ts ! i) \<noteq> None"
proof -
  from assms(1) obtain headers rest where r: "records = headers # rest"
    by (cases records) (simp_all add: csv_turns_def)
  from csv_turns_nth[OF assms(1)[unfolded r] assms(2)] obtain tc row where
    "csv_turn p tc (now i) row = Inr (ts ! i)" by blast
  from csv_turn_fields[OF this] assms(3) show ?thesis by simp
qed

lemma read_turns_populated:
  assumes "read_turns f p fmt now = Inr ts" and "i < length ts" and "truthy (thread_id (ts ! i))"
  shows "annotator_id (ts ! i) \<noteq> None \<and> annotation_timestamp (ts ! i) \<noteq> None"
proof (cases "fmt = ''csv''")
  case True
  with assms(1) have "csv_turns p now (csv_view f) = Inr ts" by (simp add: read_turns_def)
  from csv_turns_populated[OF this assms(2,3)] show ?thesis .
next
  case False
  with assms(1) obtain data where "json_turns p now data = Inr ts"
    by (auto simp: read_turns_def split: option.splits)
  from json_turns_populated[OF this assms(2,3)] show ?thesis .
qed

lemma annotate_loop_Some:
  "annotate_loop tid ann thr nts now ts = Some ts' \<Longrightarrow> \<exists>t \<in> set ts. turn_id t = tid"
  by (induction ts arbitrary: ts') (auto split: if_splits)

lemma annotate_turn_Inr:
  assumes "annotate_turn s rid tid ann thr nts now = Inr (s', res)"
  shows "\<exists>room pre t post.
     map_of (disentanglement_rooms s) rid = Some room \<and>
     turns room = pre @ t # post \<and> turn_id t = tid \<and> (\<forall>u \<in> set pre. turn_id u \<noteq> tid) \<and>
     disentanglement_rooms s' =
       AList.update rid
         (room\<lparr>turns := pre @ t\<lparr>thread_id := thr, annotator_id := Some ann,
                   annotation_timestamp := Some now, annotation_notes := nts\<rparr> # post\<rparr>)
         (disentanglement_rooms s)"
proof -
  from assms obtain room ts where
    r: "map_of (disentanglement_rooms s) rid = Some room" and
    l: "annotate_loop tid ann thr nts now (turns room) = Some ts" and
    s': "disentanglement_rooms s' = AList.update rid (room\<lparr>turns := ts\<rparr>) (disentanglement_rooms s)"
    by (auto simp: annotate_turn_def save_room_def Let_def split: option.splits)
  from annotate_loop_split[OF annotate_loop_Some[OF l], of ann thr nts now] l
  obtain pre t post where
    "turns room = pre @ t # post" "turn_id t = tid" "\<forall>u \<in> set pre. turn_id u \<noteq> tid"
    "ts = pre @ t\<lparr>thread_id := thr, annotator_id := Some ann,
                   annotation_timestamp := Some now, annotation_notes := nts\<rparr> # post"
    by auto
  with r s' show ?thesis by blast
qed

lemma csv_turns_populated_iff:
  assumes "csv_turns p now records = Inr ts" and "i < length ts"
  shows "populated (ts ! i) \<longleftrightarrow> thread_id (ts ! i) \<noteq> None"
proof -
  from assms(1) obtain headers rest where r: "records = headers # rest"
    by (cases records) (simp_all add: csv_turns_def)
  from csv_turns_nth[OF assms(1)[unfolded r] assms(2)] obtain tc row where
    c: "csv_turn p tc (now i) row = Inr (ts ! i)" by blast
  from csv_turn_fields[OF c] have
    t: "thread_id (ts ! i) = existing_thread_of tc row" and
    a: "annotator_id (ts ! i) = (if truthy (thread_id (ts ! i)) then Some ''imported'' else None)" and
    m: "annotation_timestamp (ts ! i) = (if truthy (thread_id (ts ! i)) then Some (now i) else None)"
    by simp_all
  have "thread_id (ts ! i) \<noteq> Some []"
    unfolding t existing_thread_of_eq by (simp split: option.splits)
  then have "truthy (thread_id (ts ! i)) \<longleftrightarrow> thread_id (ts ! i) \<noteq> None"
    by (cases "thread_id (ts ! i)") simp_all
  with a m show ?thesis by (simp add: populated_def)
qed

lemma step_import:
  assumes inv: "history_invariant s h"
  shows "history_invariant (handle (Import p fmt now) s) (mark (Import p fmt now) s h)"
proof (cases "import_chatroom s p fmt now")
  case (Inl e)
  with inv show ?thesis by (simp add: handle_def mark_def)
next
  case (Inr r)
  obtain s' res where r: "r = (s', res)" by (cases r)
  from import_chatroom_Inr[OF Inr[unfolded r]] obtain f ts where
    rt: "read_turns f p fmt now = Inr ts" and
    s': "s' = s\<lparr>disentanglement_rooms :=
              AList.update (stem p) \<lparr>room_id = stem p, turns = ts\<rparr> (disentanglement_rooms s),
            files := (files s)(room_file (stem p) \<mapsto>
              json_dump False (room_dict \<lparr>room_id = stem p, turns = ts\<rparr>))\<rparr>"
    by blast
  have m: "map_of (disentanglement_rooms s') =
      (map_of (disentanglement_rooms s))(stem p \<mapsto> \<lparr>room_id = stem p, turns = ts\<rparr>)"
    by (simp add: s' update_conv')
  have hd: "handle (Import p fmt now) s = s'" by (simp add: handle_def Inr r)
  let ?h' = "\<lparr>assigned = (assigned h)(stem p := (\<lambda>i. i < length ts \<and> thread_id (ts ! i) \<noteq> None)),
              written_by = (written_by h)
                (stem p := (\<lambda>i. if fmt = ''csv'' then ImportedCsv else ImportedJson))\<rparr>"
  have ht: "has_thread_id s' (stem p) = (\<lambda>i. i < length ts \<and> thread_id (ts ! i) \<noteq> None)"
    by (rule ext) (simp add: has_thread_id_def m)
  have h': "mark (Import p fmt now) s h = ?h'"
    by (simp add: mark_def Inr r ht)
  show ?thesis
    unfolding hd h' history_invariant_def
  proof (intro allI impI)
    fix rid room i
    assume a: "map_of (disentanglement_rooms s') rid = Some room \<and> i < length (turns room) \<and>
        set_by_service (written_by ?h' rid i) (turns room ! i)"
    show "populated (turns room ! i) \<longleftrightarrow> assigned ?h' rid i"
    proof (cases "rid = stem p")
      case True
      with a m have t: "turns room = ts" by auto
      with a have i: "i < length ts" by simp
      show ?thesis
      proof (cases "fmt = ''csv''")
        case c: True
        with rt have "csv_turns p now (csv_view f) = Inr ts" by (simp add: read_turns_def)
        from csv_turns_populated_iff[OF this i] True t i show ?thesis by simp
      next
        case False
        with a True t have tr: "truthy (thread_id (ts ! i))" by (simp add: set_by_service_def)
        from read_turns_populated[OF rt i tr] have "populated (ts ! i)" by (simp add: populated_def)
        moreover from tr have "thread_id (ts ! i) \<noteq> None" by (cases "thread_id (ts ! i)") simp_all
        ultimately show ?thesis using True t i by simp
      qed
    next
      case False
      with a m have "map_of (disentanglement_rooms s) rid = Some room \<and> i < length (turns room) \<and>
          set_by_service (written_by h rid i) (turns room ! i)"
        by simp
      with inv have "populated (turns room ! i) \<longleftrightarrow> assigned h rid i"
        unfolding history_invariant_def by blast
      with False show ?thesis by simp
    qed
  qed
qed

lemma step_annotate:
  assumes inv: "history_invariant s h"
  shows "history_invariant (handle (Annotate rid tid ann thr nts now) s)
           (mark (Annotate rid tid ann thr nts now) s h)"
proof (cases "annotate_turn s rid tid ann thr nts now")
  case (Inl e)
  with inv show ?thesis by (simp add: handle_def mark_def)
next
  case (Inr r)
  obtain s' res where r: "r = (s', res)" by (cases r)
  let ?t' = "\<lambda>t. t\<lparr>thread_id := thr, annotator_id := Some ann,
                   annotation_timestamp := Some now, annotation_notes := nts\<rparr>"
  from annotate_turn_Inr[OF Inr[unfolded r]] obtain room0 pre t post where
    r0: "map_of (disentanglement_rooms s) rid = Some room0" and
    sp: "turns room0 = pre @ t # post" and ti: "turn_id t = tid" and
    pr: "\<forall>u \<in> set pre. turn_id u \<noteq> tid" and
    s': "disentanglement_rooms s' =
       AList.update rid (room0\<lparr>turns := pre @ ?t' t # post\<rparr>) (disentanglement_rooms s)"
    by blast
  have m: "map_of (disentanglement_rooms s') =
      (map_of (disentanglement_rooms s))(rid \<mapsto> room0\<lparr>turns := pre @ ?t' t # post\<rparr>)"
    by (simp add: s' update_conv')
  have tw: "takeWhile (\<lambda>t. turn_id t \<noteq> tid) (turns room0) = pre"
    using pr ti by (simp add: sp takeWhile_append2)
  have hd: "handle (Annotate rid tid ann thr nts now) s = s'" by (simp add: handle_def Inr r)
  let ?h' = "\<lparr>assigned = (assigned h)(rid := (assigned h rid)(length pre := True)),
              written_by = (written_by h)(rid := (written_by h rid)(length pre := Annotated))\<rparr>"
  have h': "mark (Annotate rid tid ann thr nts now) s h = ?h'"
    by (simp add: mark_def Inr r r0 tw Let_def)
  show ?thesis
    unfolding hd h' history_invariant_def
  proof (intro allI impI)
    fix rid' room i
    assume a: "map_of (disentanglement_rooms s') rid' = Some room \<and> i < length (turns room) \<and>
        set_by_service (written_by ?h' rid' i) (turns room ! i)"
    show "populated (turns room ! i) \<longleftrightarrow> assigned ?h' rid' i"
    proof (cases "rid' = rid")
      case True
      with a m have t: "turns room = pre @ ?t' t # post" by auto
      show ?thesis
      proof (cases "i = length pre")
        case True
        with t \<open>rid' = rid\<close> show ?thesis by (simp add: populated_def)
      next
        case False
        with t sp have n: "turns room ! i = turns room0 ! i"
          by (simp add: nth_append nth_Cons')
        from a t sp have "i < length (turns room0)" by simp
        with a n False \<open>rid' = rid\<close> r0
        have "map_of (disentanglement_rooms s) rid = Some room0 \<and> i < length (turns room0) \<and>
            set_by_service (written_by h rid i) (turns room0 ! i)"
          by simp
        with inv have "populated (turns room0 ! i) \<longleftrightarrow> assigned h rid i"
          unfolding history_invariant_def by blast
        with n False \<open>rid' = rid\<close> show ?thesis by simp
      qed
    next
      case False
      with a m have "map_of (disentanglement_rooms s) rid' = Some room \<and> i < length (turns room) \<and>
          set_by_service (written_by h rid' i) (turns room ! i)"
        by simp
      with inv have "populated (turns room ! i) \<longleftrightarrow> assigned h rid' i"
        unfolding history_invariant_def by blast
      with False show ?thesis by simp
    qed
  qed
qed

lemma step_delete:
  assumes inv: "history_invariant s h"
  shows "history_invariant (handle (Delete rid) s) (mark (Delete rid) s h)"
proof (cases "delete_chatroom s rid")
  case (Inl e)
  with inv show ?thesis by (simp add: handle_def mark_def)
next
  case (Inr r)
  obtain s' msg where r: "r = (s', msg)" by (cases r)
  from Inr[unfolded r] have m: "map_of (disentanglement_rooms s') =
      (map_of (disentanglement_rooms s))(rid := None)"
    by (auto simp: delete_chatroom_def delete_conv' split: option.splits)
  have hd: "handle (Delete rid) s = s'" by (simp add: handle_def Inr r)
  let ?h' = "\<lparr>assigned = (assigned h)(rid := (\<lambda>i. False)),
              written_by = (written_by h)(rid := (\<lambda>i. Loaded))\<rparr>"
  have h': "mark (Delete rid) s h = ?h'" by (simp add: mark_def Inr r)
  show ?thesis
    unfolding hd h' history_invariant_def
  proof (intro allI impI)
    fix rid' room i
    assume a: "map_of (disentanglement_rooms s') rid' = Some room \<and> i < length (turns room) \<and>
        set_by_service (written_by ?h' rid' i) (turns room ! i)"
    with m have ne: "rid' \<noteq> rid" by auto
    with a m have "map_of (disentanglement_rooms s) rid' = Some room \<and> i < length (turns room) \<and>
        set_by_service (written_by h rid' i) (turns room ! i)"
      by simp
    with inv have "populated (turns room ! i) \<longleftrightarrow> assigned h rid' i"
      unfolding history_invariant_def by blast
    with ne show "populated (turns room ! i) \<longleftrightarrow> assigned ?h' rid' i"
      by simp
  qed
qed

lemma step_upload:
  "history_invariant s h \<Longrightarrow>
   history_invariant (handle (Upload p f) s) (mark (Upload p f) s h)"
  by (simp add: handle_def mark_def history_invariant_def)

lemma step_request:
  "history_invariant s h \<Longrightarrow> history_invariant (handle req s) (mark req s h)"
  by (cases req) (simp_all only: step_import step_annotate step_delete step_upload)

lemma run_invariant:
  "history_invariant s h \<Longrightarrow>
   history_invariant (run reqs s) (history_after reqs s h)"
  by (induction reqs arbitrary: s h) (simp_all add: step_request)

lemma initial_history_invariant: "history_invariant s (initial_history s)"
  by (simp add: history_invariant_def initial_history_def set_by_service_def)

text \<open>
  C9 (as amended). The service starts on any data directory and then serves any sequence
  of imports, annotations and deletions. In every store so reached, for every turn whose
  annotator id and timestamp the service itself decided (the turn was last written by
  \<open>annotate_turn\<close>, by a CSV import, or by a JSON import that stored it with a non-empty
  thread id): the annotator id and the timestamp are both populated if and only if a thread
  id was ever explicitly assigned to the turn.
\<close>

theorem populated_iff_assigned:
  assumes "init_service fs listing = Inr s0"
      and "map_of (disentanglement_rooms (run reqs s0)) rid = Some room"
      and "i < length (turns room)"
      and "set_by_service (written_by (history_after reqs s0 (initial_history s0)) rid i)
             (turns room ! i)"
  shows "(annotator_id (turns room ! i) \<noteq> None \<and> annotation_timestamp (turns room ! i) \<noteq> None)
           \<longleftrightarrow> assigned (history_after reqs s0 (initial_history s0)) rid i"
  using run_invariant[OF initial_history_invariant, of reqs s0] assms(2-4)
  unfolding history_invariant_def populated_def by blast

lemma parse_room_room_dict: "parse_room (room_dict room) = Inr room"
proof -
  have "collect_from 0 (\<lambda>i. parse_obj) (map turn_dict (turns room)) =
      Inr (map (\<lambda>(k, t). t) (List.enumerate 0 (turns room)))"
    unfolding collect_from_map
    by (rule collect_from_total) (simp add: parse_obj_turn_dict)
  moreover have "map (\<lambda>(k, t). t) (List.enumerate 0 (turns room)) = turns room"
    by (rule map_enumerate_id) simp
  ultimately show ?thesis
    by (simp add: parse_room_def room_dict_def required_str_def)
qed

lemma init_service_empty: "init_service fs [] = Inr (empty_store fs)"
  by (simp add: init_service_def empty_store_def)

lemma given_import:
  "import_chatroom (empty_store given_upload) ''uploads/chat.json'' ''json''
     (\<lambda>i. Datetime ''2024-06-01 08:00:00'') =
   Inr (\<lparr>disentanglement_rooms = [(''chat'', given_room)],
         files = given_upload(''data/chatrooms/chat.json'' \<mapsto>
           json_dump False (room_dict given_room))\<rparr>,
        \<lparr>message = ''Successfully imported chat room chat'', total_turns = 2,
         pre_annotated_turns = 1\<rparr>)"
proof -
  have f: "given_upload ''uploads/chat.json'' = Some (json_dump True (room_dict given_room))"
    by (simp add: given_upload_def)
  have d: "thread_id turn_d = None" "thread_id turn_e = Some []"
    by (simp_all add: turn_d_def turn_e_def)
  have t: "read_turns (json_dump True (room_dict given_room))
      ''uploads/chat.json'' ''json'' (\<lambda>i. Datetime ''2024-06-01 08:00:00'') = Inr [turn_d, turn_e]"
    by (simp add: read_turns_json_dump enumerate_eq_zip set_annotation_metadata_def d
        given_room_def upt_rec)
  have g: "\<lparr>room_id = ''chat'', turns = [turn_d, turn_e]\<rparr> = given_room"
    by (simp add: given_room_def)
  show ?thesis
    by (simp add: import_chatroom_def f t d g Let_def stem_upload save_room_def empty_store_def
        room_file_def path_join_def data_dir_def)
qed

lemma given_start:
  "init_service given_data_dir [''data/chatrooms/chat.json''] =
     Inr \<lparr>disentanglement_rooms = [(''chat'', given_room)], files = given_data_dir\<rparr>"
proof -
  have f: "given_data_dir ''data/chatrooms/chat.json'' =
      Some (json_dump False (room_dict given_room))"
    by (simp add: given_data_dir_def)
  have r: "room_id given_room = ''chat''" by (simp add: given_room_def)
  show ?thesis
    by (simp add: init_service_def f json_dump_def parse_room_room_dict r)
qed

text \<open>
  C9 as stated fails for the turns whose annotator id and timestamp are the ones their
  file gave. The service starts on an empty data directory and imports the uploaded JSON
  file. Its first turn then has an annotator id and a timestamp, and no thread id was ever
  assigned to it: the file gives none, and the turn was never annotated. Its second turn
  was imported with the thread id \<open>""\<close>, which the import counts as pre-annotated, and has
  no annotator id. A service that starts on the room file this import wrote holds the same
  two turns.
\<close>

theorem populated_iff_assigned_counterexample:
  "init_service given_upload [] = Inr (empty_store given_upload) \<and>
   map_of (disentanglement_rooms (run given_requests (empty_store given_upload))) ''chat'' =
     Some given_room \<and>
   turns given_room = [turn_d, turn_e] \<and>
   thread_id turn_d = None \<and>
   annotator_id turn_d = Some ''carol'' \<and>
   annotation_timestamp turn_d = Some (Datetime ''2024-05-01 10:00:00'') \<and>
   \<not> assigned (history_after given_requests (empty_store given_upload)
        (initial_history (empty_store given_upload))) ''chat'' 0 \<and>
   thread_id turn_e = Some [] \<and>
   annotator_id turn_e = None \<and>
   assigned (history_after given_requests (empty_store given_upload)
        (initial_history (empty_store given_upload))) ''chat'' 1 \<and>
   init_service given_data_dir [''data/chatrooms/chat.json''] =
     Inr \<lparr>disentanglement_rooms = [(''chat'', given_room)], files = given_data_dir\<rparr> \<and>
   \<not> assigned (history_after []
        \<lparr>disentanglement_rooms = [(''chat'', given_room)], files = given_data_dir\<rparr>
        (initial_history \<lparr>disentanglement_rooms = [(''chat'', given_room)], files = given_data_dir\<rparr>))
      ''chat'' 0 \<and>
   assigned (history_after []
        \<lparr>disentanglement_rooms = [(''chat'', given_room)], files = given_data_dir\<rparr>
        (initial_history \<lparr>disentanglement_rooms = [(''chat'', given_room)], files = given_data_dir\<rparr>))
      ''chat'' 1"
proof -
  have d: "thread_id turn_d = None" "annotator_id turn_d = Some ''carol''"
    "annotation_timestamp turn_d = Some (Datetime ''2024-05-01 10:00:00'')"
    "thread_id turn_e = Some []" "annotator_id turn_e = None"
    by (simp_all add: turn_d_def turn_e_def)
  have g: "turns given_room = [turn_d, turn_e]" by (simp add: given_room_def)
  show ?thesis
    by (simp add: init_service_empty given_start given_requests_def handle_def mark_def
        given_import stem_upload has_thread_id_def initial_history_def g d)
qed

lemma csv_start: "init_service (files csv_upload_service) [] = Inr csv_upload_service"
  by (simp add: init_service_def csv_upload_service_def)

lemma csv_annotate:
  "\<exists>s' res. annotate_turn csv_imported_service ''chat'' ''t2'' ''dave'' None None
       (Datetime ''2024-06-02 09:00:00'') = Inr (s', res) \<and>
     disentanglement_rooms s' = [(''chat'', \<lparr>room_id = ''chat'', turns = csv_annotated_turns\<rparr>)]"
proof -
  have r: "map_of (disentanglement_rooms csv_imported_service) ''chat'' =
      Some \<lparr>room_id = ''chat'', turns = csv_example_turns\<rparr>"
    by (simp add: csv_imported_service_def)
  have a: "annotate_loop ''t2'' ''dave'' None None (Datetime ''2024-06-02 09:00:00'')
      csv_example_turns = Some csv_annotated_turns"
    by (simp add: csv_example_turns_def csv_annotated_turns_def)
  have u: "AList.update ''chat'' \<lparr>room_id = ''chat'', turns = csv_annotated_turns\<rparr>
      (disentanglement_rooms csv_imported_service) =
        [(''chat'', \<lparr>room_id = ''chat'', turns = csv_annotated_turns\<rparr>)]"
    by (simp add: csv_imported_service_def)
  show ?thesis
    by (simp add: annotate_turn_def r a u Let_def save_room_def)
qed

lemma csv_takeWhile:
  "length (takeWhile (\<lambda>t. turn_id t \<noteq> ''t2'') csv_example_turns) = 1"
  by (simp add: csv_example_turns_def)

lemma csv_run:
  "map_of (disentanglement_rooms (run csv_requests csv_upload_service)) ''chat'' =
     Some \<lparr>room_id = ''chat'', turns = csv_annotated_turns\<rparr>"
proof -
  from csv_annotate obtain s' res where
    a: "annotate_turn csv_imported_service ''chat'' ''t2'' ''dave'' None None
       (Datetime ''2024-06-02 09:00:00'') = Inr (s', res)" and
    r: "disentanglement_rooms s' = [(''chat'', \<lparr>room_id = ''chat'', turns = csv_annotated_turns\<rparr>)]"
    by blast
  show ?thesis
    by (simp add: csv_requests_def handle_def csv_import_example a r)
qed

lemma csv_written_by:
  "written_by (history_after csv_requests csv_upload_service (initial_history csv_upload_service))
     ''chat'' i = (if i = 1 then Annotated else ImportedCsv)"
proof -
  from csv_annotate obtain s' res where
    a: "annotate_turn csv_imported_service ''chat'' ''t2'' ''dave'' None None
       (Datetime ''2024-06-02 09:00:00'') = Inr (s', res)"
    by blast
  have r: "map_of (disentanglement_rooms csv_imported_service) ''chat'' =
      Some \<lparr>room_id = ''chat'', turns = csv_example_turns\<rparr>"
    by (simp add: csv_imported_service_def)
  show ?thesis
    by (simp add: csv_requests_def handle_def mark_def csv_import_example a r csv_takeWhile
        stem_csv_upload Let_def)
qed

text \<open>
  The theorem after a CSV import and an annotation without a thread id, at the three turns
  of the room: imported with a thread id, annotated, and imported without a thread id.
\<close>

theorem populated_iff_assigned_witness:
  "init_service (files csv_upload_service) [] = Inr csv_upload_service \<and>
   map_of (disentanglement_rooms (run csv_requests csv_upload_service)) ''chat'' =
     Some \<lparr>room_id = ''chat'', turns = csv_annotated_turns\<rparr> \<and>
   length csv_annotated_turns = 3 \<and>
   set_by_service
     (written_by (history_after csv_requests csv_upload_service (initial_history csv_upload_service))
        ''chat'' 0) (csv_annotated_turns ! 0) \<and>
   set_by_service
     (written_by (history_after csv_requests csv_upload_service (initial_history csv_upload_service))
        ''chat'' 1) (csv_annotated_turns ! 1) \<and>
   set_by_service
     (written_by (history_after csv_requests csv_upload_service (initial_history csv_upload_service))
        ''chat'' 2) (csv_annotated_turns ! 2) \<and>
   annotator_id (csv_annotated_turns ! 0) = Some ''imported'' \<and>
   annotation_timestamp (csv_annotated_turns ! 0) = Some (Datetime ''2024-06-01 08:00:00'') \<and>
   assigned (history_after csv_requests csv_upload_service (initial_history csv_upload_service))
     ''chat'' 0 \<and>
   annotator_id (csv_annotated_turns ! 1) = Some ''dave'' \<and>
   annotation_timestamp (csv_annotated_turns ! 1) = Some (Datetime ''2024-06-02 09:00:00'') \<and>
   assigned (history_after csv_requests csv_upload_service (initial_history csv_upload_service))
     ''chat'' 1 \<and>
   annotator_id (csv_annotated_turns ! 2) = None \<and>
   \<not> assigned (history_after csv_requests csv_upload_service (initial_history csv_upload_service))
     ''chat'' 2"
proof -
  let ?room = "\<lparr>room_id = ''chat'', turns = csv_annotated_turns\<rparr>"
  have l: "length csv_annotated_turns = 3"
    by (simp add: csv_annotated_turns_def csv_example_turns_def)
  have i: "0 < length (turns ?room)" "1 < length (turns ?room)" "2 < length (turns ?room)"
    by (simp_all add: l)
  have w: "set_by_service
       (written_by (history_after csv_requests csv_upload_service (initial_history csv_upload_service))
          ''chat'' 0) (turns ?room ! 0)"
     "set_by_service
       (written_by (history_after csv_requests csv_upload_service (initial_history csv_upload_service))
          ''chat'' 1) (turns ?room ! 1)"
     "set_by_service
       (written_by (history_after csv_requests csv_upload_service (initial_history csv_upload_service))
          ''chat'' 2) (turns ?room ! 2)"
    by (simp_all add: csv_written_by set_by_service_def)
  have f: "annotator_id (csv_annotated_turns ! 0) = Some ''imported''"
    "annotation_timestamp (csv_annotated_turns ! 0) = Some (Datetime ''2024-06-01 08:00:00'')"
    "annotator_id (csv_annotated_turns ! 1) = Some ''dave''"
    "annotation_timestamp (csv_annotated_turns ! 1) = Some (Datetime ''2024-06-02 09:00:00'')"
    "annotator_id (csv_annotated_turns ! 2) = None"
    by (simp_all add: csv_annotated_turns_def csv_example_turns_def)
  from populated_iff_assigned[OF csv_start csv_run i(1) w(1)]
       populated_iff_assigned[OF csv_start csv_run i(2) w(2)]
       populated_iff_assigned[OF csv_start csv_run i(3) w(3)]
       csv_start csv_run l w f
  show ?thesis by simp
qed

end
